theory Spec2Isabelle
  imports Main "HOL-Library.AList"
begin

section \<open>The news feed card: fetch, cache and fallback\<close>

text \<open>
  This theory embeds \<open>fetchNews\<close> and \<open>handleLoadMore\<close> of the news feed card
  (the component \<open>NewsFeedCard\<close>). The values the code handles at run time are the
  values of \<open>JSON.parse\<close>; errors thrown are values of a sum type; the component state,
  the cache store, the clock and the queries sent are fields of one record that every
  step takes and returns. The one \<open>await\<close> of \<open>fetchNews\<close> splits it into the
  part before the remote query answers and the part after. The operation is given twice:
  first with every call into the platform returning, then on a platform whose storage
  and client can throw.
\<close>

subsection \<open>Run-time values\<close>

text \<open>
  A value produced by \<open>JSON.parse\<close>. Numbers are the integers (the timestamps and
  ids of this program are millisecond counts); an object is the list of its own
  properties, looked up with \<open>map_of\<close>. \<open>undefined\<close> is \<open>None\<close> of
  \<open>json option\<close>. A \<open>char\<close> stands for one code unit of a string.
\<close>

datatype json =
    JNull
  | JBool bool
  | JNum int
  | JStr string
  | JArr "json list"
  | JObj "(string \<times> json) list"

text \<open>A thrown error: its \<open>name\<close> and its \<open>message\<close>.\<close>

datatype exn = JsError string string

text \<open>\<open>err.toString()\<close> of an error object.\<close>

fun toString :: "exn \<Rightarrow> string" where
  "toString (JsError name message) =
     (if name = [] then message
      else if message = [] then name
      else name @ '': '' @ message)"

subsection \<open>String operations of the language\<close>

text \<open>\<open>s.indexOf(c)\<close>: the first position of \<open>c\<close>, or \<open>-1\<close>.\<close>

fun indexOf :: "string \<Rightarrow> char \<Rightarrow> int" where
  "indexOf [] c = - 1"
| "indexOf (x # xs) c =
     (if x = c then 0
      else (let i = indexOf xs c in if i = - 1 then - 1 else i + 1))"

text \<open>\<open>s.lastIndexOf(c)\<close>: the last position of \<open>c\<close>, or \<open>-1\<close>.\<close>

fun lastIndexOf :: "string \<Rightarrow> char \<Rightarrow> int" where
  "lastIndexOf [] c = - 1"
| "lastIndexOf (x # xs) c =
     (let i = lastIndexOf xs c in
      if i \<noteq> - 1 then i + 1 else if x = c then 0 else - 1)"

text \<open>
  \<open>s.substring(a, b)\<close>: both indices are clamped to the string and swapped when
  \<open>a > b\<close>.
\<close>

definition substring :: "string \<Rightarrow> int \<Rightarrow> int \<Rightarrow> string" where
  "substring s a b =
     (let n = int (length s);
          a' = max 0 (min a n);
          b' = max 0 (min b n);
          lo = min a' b';
          hi = max a' b'
      in take (nat (hi - lo)) (drop (nat lo) s))"

text \<open>White space and line terminators among the code units below 256.\<close>

definition isWhiteSpace :: "char \<Rightarrow> bool" where
  "isWhiteSpace c \<longleftrightarrow>
     c \<in> {CHR 0x09, CHR 0x0A, CHR 0x0B, CHR 0x0C, CHR 0x0D, CHR 0x20, CHR 0xA0}"

text \<open>\<open>s.trim()\<close>.\<close>

definition trim :: "string \<Rightarrow> string" where
  "trim s = rev (dropWhile isWhiteSpace (rev (dropWhile isWhiteSpace s)))"

text \<open>\<open>s.startsWith(p)\<close> and \<open>s.includes(p)\<close>.\<close>

fun startsWith :: "string \<Rightarrow> string \<Rightarrow> bool" where
  "startsWith s [] = True"
| "startsWith [] (p # ps) = False"
| "startsWith (x # xs) (p # ps) = (x = p \<and> startsWith xs ps)"

fun includesStr :: "string \<Rightarrow> string \<Rightarrow> bool" where
  "includesStr [] p = (p = [])"
| "includesStr (x # xs) p = (startsWith (x # xs) p \<or> includesStr xs p)"

subsection \<open>The environment\<close>

text \<open>
  What the code takes from its platform: \<open>JSON.parse\<close> (\<open>Inl\<close> is the error it
  throws), \<open>JSON.stringify\<close>, the conversion to a number of a value that is not a
  number (\<open>Inl\<close> when the conversion throws, \<open>Inr None\<close> for \<open>NaN\<close>), and the
  clock: \<open>clock n\<close> is what the \<open>n\<close>-th reading of the time returns, in
  milliseconds.
\<close>

record env =
  jsonParse :: "string \<Rightarrow> exn + json"
  jsonStringify :: "json \<Rightarrow> string"
  toNumber :: "json \<Rightarrow> exn + int option"
  clock :: "nat \<Rightarrow> int"

subsection \<open>The response parser (lines 63 to 79)\<close>

definition typeError :: "string \<Rightarrow> exn" where
  "typeError message = JsError ''TypeError'' message"

definition noArrayFound :: exn where
  "noArrayFound = JsError ''Error'' ''No valid JSON array found in the model's response.''"

definition failedToParse :: exn where
  "failedToParse = JsError ''Error'' ''Failed to parse news data.''"

text \<open>
  The body of the inner \<open>try\<close> (lines 65 to 75). The text of the response is
  \<open>None\<close> when the response carries no text: \<open>response.text.trim()\<close> throws then.
\<close>

definition parseBody :: "env \<Rightarrow> string option \<Rightarrow> exn + json" where
  "parseBody e text =
     (case text of
        None \<Rightarrow> Inl (typeError ''Cannot read properties of undefined (reading 'trim')'')
      | Some t \<Rightarrow>
          (let responseText = trim t;
               startIndex = indexOf responseText (CHR ''['');
               endIndex = lastIndexOf responseText (CHR '']'')
           in if startIndex = - 1 \<or> endIndex = - 1 \<or> endIndex < startIndex
              then Inl noArrayFound
              else jsonParse e (substring responseText startIndex (endIndex + 1))))"

text \<open>
  The inner \<open>try\<close> with its \<open>catch\<close> (lines 63 to 79): whatever the body throws
  is logged and replaced by one error.
\<close>

definition parseResponse :: "env \<Rightarrow> string option \<Rightarrow> exn + json" where
  "parseResponse e text =
     (case parseBody e text of
        Inl parseError \<Rightarrow> Inl failedToParse
      | Inr articlesData \<Rightarrow> Inr articlesData)"

subsection \<open>Reading properties, comparing with numbers\<close>

text \<open>
  The property \<open>k\<close> of a value that is neither \<open>null\<close> nor \<open>undefined\<close>, for a
  key that no prototype defines (\<open>timestamp\<close>, \<open>articles\<close>): only an object has it.
\<close>

fun getProp :: "json \<Rightarrow> string \<Rightarrow> json option" where
  "getProp (JObj kvs) k = map_of kvs k"
| "getProp v k = None"

text \<open>\<open>v.length\<close>: it throws on \<open>null\<close>.\<close>

fun lengthOf :: "json \<Rightarrow> exn + json option" where
  "lengthOf JNull = Inl (typeError ''Cannot read properties of null (reading 'length')'')"
| "lengthOf (JBool b) = Inr None"
| "lengthOf (JNum n) = Inr None"
| "lengthOf (JStr s) = Inr (Some (JNum (int (length s))))"
| "lengthOf (JArr xs) = Inr (Some (JNum (int (length xs))))"
| "lengthOf (JObj kvs) = Inr (map_of kvs ''length'')"

text \<open>The number an operand of \<open>-\<close> or \<open>>\<close> stands for; \<open>Inr None\<close> is \<open>NaN\<close>.\<close>

fun toNum :: "env \<Rightarrow> json option \<Rightarrow> exn + int option" where
  "toNum e None = Inr None"
| "toNum e (Some (JNum n)) = Inr (Some n)"
| "toNum e (Some v) = toNumber e v"

text \<open>\<open>v > 0\<close>: false when \<open>v\<close> is \<open>NaN\<close>.\<close>

definition greaterZero :: "env \<Rightarrow> json option \<Rightarrow> exn + bool" where
  "greaterZero e v =
     (case toNum e v of
        Inl x \<Rightarrow> Inl x
      | Inr None \<Rightarrow> Inr False
      | Inr (Some n) \<Rightarrow> Inr (0 < n))"

text \<open>
  The test \<open>cachedArticles.length > 0\<close> (lines 29 and 114): \<open>Inr (Some a)\<close> when it
  holds of the value \<open>a\<close>, \<open>Inr None\<close> when it does not, \<open>Inl\<close> when it throws
  (\<open>cachedArticles\<close> is \<open>undefined\<close> or \<open>null\<close>, or the conversion throws).
\<close>

definition nonEmpty :: "env \<Rightarrow> json option \<Rightarrow> exn + json option" where
  "nonEmpty e cachedArticles =
     (case cachedArticles of
        None \<Rightarrow> Inl (typeError ''Cannot read properties of undefined (reading 'length')'')
      | Some a \<Rightarrow>
          (case lengthOf a of
             Inl x \<Rightarrow> Inl x
           | Inr l \<Rightarrow>
               (case greaterZero e l of
                  Inl x \<Rightarrow> Inl x
                | Inr b \<Rightarrow> Inr (if b then Some a else None))))"

subsection \<open>The state\<close>

text \<open>
  The cache store (\<open>localStorage\<close>), the four state variables of the component, the
  remote queries sent so far (the language and the date each prompt was built from),
  and the number of readings of the clock so far.
\<close>

record world =
  store :: "string \<rightharpoonup> string"
  articles :: json
  loading :: bool
  fetchingMore :: bool
  error :: "string option"
  queries :: "(string \<times> int) list"
  ticks :: nat

definition CACHE_KEY_PREFIX :: string where
  "CACHE_KEY_PREFIX = ''insight_quest_news_cache_''"

definition CACHE_DURATION :: int where
  "CACHE_DURATION = 15 * 60 * 1000"

definition cacheKey :: "string \<Rightarrow> string" where
  "cacheKey language = CACHE_KEY_PREFIX @ language"

subsection \<open>Before the query: the cache (lines 23 to 61)\<close>

text \<open>
  The body of the \<open>try\<close> of lines 27 to 34, on the text \<open>cachedData\<close>, with the
  number of clock readings before and after. \<open>Inr (Some a)\<close>: the payload is fresh
  and \<open>a\<close> is adopted (line 33 returns); \<open>Inr None\<close>: the test of line 29 is false;
  \<open>Inl\<close>: the body throws. Destructuring throws on \<open>null\<close>; \<open>Date.now()\<close> is read
  before \<open>timestamp\<close> is converted; \<open>&&\<close> evaluates its right operand only when the
  left one holds.
\<close>

definition freshCache :: "env \<Rightarrow> nat \<Rightarrow> string \<Rightarrow> (exn + json option) \<times> nat" where
  "freshCache e t cachedData =
     (case jsonParse e cachedData of
        Inl x \<Rightarrow> (Inl x, t)
      | Inr v \<Rightarrow>
          if v = JNull
          then (Inl (typeError ''Cannot destructure property 'timestamp' of null''), t)
          else
            (let timestamp = getProp v ''timestamp'';
                 cachedArticles = getProp v ''articles'';
                 now = clock e t
             in (case toNum e timestamp of
                   Inl x \<Rightarrow> (Inl x, Suc t)
                 | Inr None \<Rightarrow> (Inr None, Suc t)
                 | Inr (Some ts) \<Rightarrow>
                     if now - ts < CACHE_DURATION
                     then (nonEmpty e cachedArticles, Suc t)
                     else (Inr None, Suc t))))"

text \<open>
  Lines 44 to 61, up to the \<open>await\<close>, when the client is built: the error is
  cleared, the date is read for the prompt, the query is sent.
\<close>

definition issueQuery :: "env \<Rightarrow> string \<Rightarrow> world \<Rightarrow> world" where
  "issueQuery e language w =
     w\<lparr>error := None,
       queries := queries w @ [(language, clock e (ticks w))],
       ticks := Suc (ticks w)\<rparr>"

text \<open>
  Where \<open>fetchNews\<close> stands after its first part: it has returned (line 33), or it
  awaits the answer to its query.
\<close>

datatype phase = Returned world | Awaiting world

text \<open>
  Lines 21 to 61, when the calls of \<open>localStorage\<close> return and the client is built
  (\<open>beginFetchOn\<close> below is the same part on any platform). An absent entry and the
  empty text are both falsy at line 26. The \<open>catch\<close> of line 35 removes the entry.
\<close>

definition beginFetch :: "env \<Rightarrow> string \<Rightarrow> bool \<Rightarrow> world \<Rightarrow> phase" where
  "beginFetch e language isRefresh w =
     (if isRefresh then
        (let w1 = w\<lparr>loading := True\<rparr> in
         case store w1 (cacheKey language) of
           None \<Rightarrow> Awaiting (issueQuery e language w1)
         | Some cachedData \<Rightarrow>
             if cachedData = [] then Awaiting (issueQuery e language w1)
             else
               (case freshCache e (ticks w1) cachedData of
                  (r, t) \<Rightarrow>
                    (case r of
                       Inr (Some cachedArticles) \<Rightarrow>
                         Returned (w1\<lparr>ticks := t, articles := cachedArticles,
                                      loading := False, error := None\<rparr>)
                     | Inr None \<Rightarrow> Awaiting (issueQuery e language (w1\<lparr>ticks := t\<rparr>))
                     | Inl x \<Rightarrow>
                         Awaiting (issueQuery e language
                           (w1\<lparr>ticks := t,
                               store := (store w1)(cacheKey language := None)\<rparr>)))))
      else Awaiting (issueQuery e language (w\<lparr>fetchingMore := True\<rparr>)))"

subsection \<open>After the query: parsing and ids (lines 62 to 84)\<close>

text \<open>
  What the awaited query gives: it is rejected with an error, or it resolves to a
  response with or without text.
\<close>

datatype remoteResult = Rejected exn | Resolved "string option"

text \<open>
  Lines 55 to 81 up to the call of \<open>map\<close>: the decoded array, or the error that the
  outer \<open>catch\<close> receives. \<open>articlesData.map\<close> throws when the decoded value is
  not an array.
\<close>

definition fetched :: "env \<Rightarrow> remoteResult \<Rightarrow> exn + json list" where
  "fetched e outcome =
     (case outcome of
        Rejected err \<Rightarrow> Inl err
      | Resolved text \<Rightarrow>
          (case parseResponse e text of
             Inl err \<Rightarrow> Inl err
           | Inr articlesData \<Rightarrow>
               (case articlesData of
                  JArr xs \<Rightarrow> Inr xs
                | _ \<Rightarrow> Inl (typeError ''articlesData.map is not a function''))))"

text \<open>The decimal digits of a number: the name of an index as a property.\<close>

fun showNat :: "nat \<Rightarrow> string" where
  "showNat n =
     (if n < 10 then [char_of (48 + n)]
      else showNat (n div 10) @ [char_of (48 + n mod 10)])"

declare showNat.simps [simp del]

text \<open>
  The own properties that \<open>...article\<close> copies: those of an object, the elements of
  an array and the code units of a string under their indices, none of anything else.
\<close>

fun ownProps :: "json \<Rightarrow> (string \<times> json) list" where
  "ownProps (JObj kvs) = kvs"
| "ownProps (JArr xs) = zip (map showNat [0..<length xs]) xs"
| "ownProps (JStr s) = zip (map showNat [0..<length s]) (map (\<lambda>c. JStr [c]) s)"
| "ownProps v = []"

text \<open>
  Lines 81 to 84: the \<open>index\<close>-th record gets the id \<open>Date.now() + index\<close>, each
  element reading the clock once. An \<open>id\<close> that the record had is replaced in place;
  otherwise the id is added last.
\<close>

fun newArticlesWithIds :: "env \<Rightarrow> nat \<Rightarrow> nat \<Rightarrow> json list \<Rightarrow> json list" where
  "newArticlesWithIds e t index [] = []"
| "newArticlesWithIds e t index (article # rest) =
     JObj (AList.update ''id'' (JNum (clock e t + int index)) (ownProps article))
       # newArticlesWithIds e (Suc t) (Suc index) rest"

subsection \<open>After the query: success (lines 86 to 97)\<close>

text \<open>The object \<open>{ timestamp, articles }\<close> that is written to the cache.\<close>

definition cachePayload :: "int \<Rightarrow> json list \<Rightarrow> json" where
  "cachePayload timestamp as = JObj [(''timestamp'', JNum timestamp), (''articles'', JArr as)]"

text \<open>
  The elements that \<open>...prevArticles\<close> spreads into the new array (line 92): those of
  an array, the code units of a string; any other value is not iterable and the spread
  throws.
\<close>

fun spreadElements :: "json \<Rightarrow> exn + json list" where
  "spreadElements (JArr xs) = Inr xs"
| "spreadElements (JStr s) = Inr (map (\<lambda>c. JStr [c]) s)"
| "spreadElements v = Inl (typeError ''prevArticles is not iterable'')"

text \<open>
  Lines 81 to 97, when \<open>setItem\<close> returns. A refresh replaces the articles by the
  new ones; a load-more appends them to the current ones (the function given to
  \<open>setArticles\<close> runs on the current state). Both write the payload with the time
  read after the ids. \<open>Inl\<close>: the function given to \<open>setArticles\<close> throws,
  which no handler of the component catches.
\<close>

definition onSuccess :: "env \<Rightarrow> string \<Rightarrow> bool \<Rightarrow> json list \<Rightarrow> world \<Rightarrow> exn + world" where
  "onSuccess e language isRefresh articlesData w =
     (let newArticles = newArticlesWithIds e (ticks w) 0 articlesData;
          t = ticks w + length articlesData
      in if isRefresh then
           Inr (w\<lparr>articles := JArr newArticles,
                  ticks := Suc t,
                  store := (store w)(cacheKey language \<mapsto>
                    jsonStringify e (cachePayload (clock e t) newArticles))\<rparr>)
         else
           (case spreadElements (articles w) of
              Inl x \<Rightarrow> Inl x
            | Inr prevArticles \<Rightarrow>
                (let allArticles = prevArticles @ newArticles in
                 Inr (w\<lparr>articles := JArr allArticles,
                        ticks := Suc t,
                        store := (store w)(cacheKey language \<mapsto>
                          jsonStringify e (cachePayload (clock e t) allArticles))\<rparr>))))"

subsection \<open>After the query: failure (lines 99 to 130)\<close>

definition isRateLimitError :: "exn \<Rightarrow> bool" where
  "isRateLimitError err =
     (let errString = toString err
      in includesStr errString ''429'' \<or> includesStr errString ''RESOURCE_EXHAUSTED'')"

definition failedMessage :: string where
  "failedMessage = ''Failed to fetch news. Please try again later.''"

definition highDemandMessage :: string where
  "highDemandMessage =
     ''News service is temporarily unavailable due to high demand. '' @
     ''Showing older articles if available.''"

definition userMessage :: "exn \<Rightarrow> string" where
  "userMessage err = (if isRateLimitError err then highDemandMessage else failedMessage)"

definition moreMessage :: "exn \<Rightarrow> string" where
  "moreMessage err =
     (if isRateLimitError err then ''Could not load more articles due to high demand.''
      else ''Could not load more articles.'')"

text \<open>The two hardcoded articles of lines 125 and 126.\<close>

definition sampleBusiness :: json where
  "sampleBusiness =
     JObj [(''id'', JNum 1),
           (''category'', JStr ''Business''),
           (''title'', JStr ''HKMA maintains base rate at 5.75 percent''),
           (''summary'', JStr
             (''The Hong Kong Monetary Authority (HKMA) on Thursday maintained its bas'' @
              ''e rate at 5.75 percent. This decision comes after the US Federal Reser'' @
              ''ve kept its key interest rate unchanged amid ongoing inflation concern'' @
              ''s. The HKMA's move was widely expected by economists, who predict that'' @
              '' local borrowing costs will remain elevated for the foreseeable future'' @
              ''. This stability is crucial for maintaining the Hong Kong dollar's peg'' @
              '' to the US dollar. Businesses are closely watching these developments,'' @
              '' as higher interest rates can impact investment and consumer spending '' @
              ''across the city.'')),
           (''sourceUrl'', JStr ''#'')]"

definition sampleCommunity :: json where
  "sampleCommunity =
     JObj [(''id'', JNum 2),
           (''category'', JStr ''Community''),
           (''title'', JStr ''HK Community Ball raises funds for charity''),
           (''summary'', JStr
             (''The annual Hong Kong Community Ball was held last Saturday, raising ov'' @
              ''er HK$5 million for local charities supporting underprivileged childre'' @
              ''n and the elderly. The event, a highlight of the city's social calenda'' @
              ''r, was attended by numerous business leaders and philanthropists. An a'' @
              ''uction featuring unique experiences and luxury items was a major contr'' @
              ''ibutor to the funds raised. Organizers expressed their gratitude for t'' @
              ''he community's generosity, emphasizing the significant impact these fu'' @
              ''nds will have on improving the lives of vulnerable groups in Hong Kong'' @
              '', especially in the post-pandemic recovery period.'')),
           (''sourceUrl'', JStr ''#'')]"

definition hardcoded :: "json list" where
  "hardcoded = [sampleBusiness, sampleCommunity]"

text \<open>
  The body of the \<open>try\<close> of lines 112 to 119 on the text \<open>cachedData\<close>:
  \<open>Inr (Some a)\<close> when line 117 returns with \<open>a\<close> adopted.
\<close>

definition staleBody :: "env \<Rightarrow> string \<Rightarrow> exn + json option" where
  "staleBody e cachedData =
     (case jsonParse e cachedData of
        Inl x \<Rightarrow> Inl x
      | Inr v \<Rightarrow>
          if v = JNull
          then Inl (typeError ''Cannot destructure property 'articles' of null'')
          else nonEmpty e (getProp v ''articles''))"

text \<open>
  Lines 110 to 120: the cached articles that the fallback adopts, if any. The
  \<open>catch\<close> of line 119 only logs.
\<close>

definition staleCache :: "env \<Rightarrow> string option \<Rightarrow> json option" where
  "staleCache e cachedData =
     (case cachedData of
        None \<Rightarrow> None
      | Some s \<Rightarrow>
          if s = [] then None
          else (case staleBody e s of Inl x \<Rightarrow> None | Inr r \<Rightarrow> r))"

text \<open>
  The outer \<open>catch\<close>, lines 99 to 130, when the \<open>getItem\<close> of line 110 returns.
  The error caught is an error object, which has a string form.
\<close>

definition onFailure :: "env \<Rightarrow> string \<Rightarrow> bool \<Rightarrow> exn \<Rightarrow> world \<Rightarrow> world" where
  "onFailure e language isRefresh err w =
     (if isRefresh then
        (case staleCache e (store w (cacheKey language)) of
           Some cachedArticles \<Rightarrow>
             w\<lparr>articles := cachedArticles, error := Some (userMessage err)\<rparr>
         | None \<Rightarrow>
             w\<lparr>error := Some (userMessage err), articles := JArr hardcoded\<rparr>)
      else w\<lparr>error := Some (moreMessage err)\<rparr>)"

subsection \<open>The whole operation\<close>

text \<open>The \<open>finally\<close> of lines 131 to 134.\<close>

definition finallyBlock :: "bool \<Rightarrow> world \<Rightarrow> world" where
  "finallyBlock isRefresh w =
     (if isRefresh then w\<lparr>loading := False\<rparr> else w\<lparr>fetchingMore := False\<rparr>)"

text \<open>
  Lines 62 to 134: \<open>fetchNews\<close> from the answer of the query on, when the calls of
  \<open>localStorage\<close> return (\<open>completeFetchOn\<close> below is the same part on any
  platform).
\<close>

definition completeFetch ::
  "env \<Rightarrow> string \<Rightarrow> bool \<Rightarrow> remoteResult \<Rightarrow> world \<Rightarrow> exn + world" where
  "completeFetch e language isRefresh outcome w =
     (case fetched e outcome of
        Inr articlesData \<Rightarrow>
          (case onSuccess e language isRefresh articlesData w of
             Inl x \<Rightarrow> Inl x
           | Inr w' \<Rightarrow> Inr (finallyBlock isRefresh w'))
      | Inl err \<Rightarrow> Inr (finallyBlock isRefresh (onFailure e language isRefresh err w)))"

text \<open>
  \<open>fetchNews(isRefresh)\<close> for the language of the component, with the answer that
  its query gets if it sends one, when the calls of \<open>localStorage\<close> return and the
  client is built: \<open>Inr\<close> exactly when \<open>fetchNewsOn\<close> below ends \<open>Done\<close> on
  the platform \<open>reliable\<close>.
\<close>

definition fetchNews ::
  "env \<Rightarrow> string \<Rightarrow> bool \<Rightarrow> remoteResult \<Rightarrow> world \<Rightarrow> exn + world" where
  "fetchNews e language isRefresh outcome w =
     (case beginFetch e language isRefresh w of
        Returned w' \<Rightarrow> Inr w'
      | Awaiting w' \<Rightarrow> completeFetch e language isRefresh outcome w')"

subsection \<open>The operation on a platform that can throw\<close>

text \<open>
  The calls into the platform that can throw where the code makes them:
  \<open>localStorage.getItem\<close> (lines 25 and 110), \<open>localStorage.removeItem\<close> (line 37),
  \<open>localStorage.setItem\<close> (lines 89 and 94) and the construction of the client
  (line 46). Each field gives the error thrown, if any, for the arguments of the call.
\<close>

record platform =
  getItemThrows :: "string \<Rightarrow> exn option"
  removeItemThrows :: "string \<Rightarrow> exn option"
  setItemThrows :: "string \<Rightarrow> string \<Rightarrow> exn option"
  newClientThrows :: "exn option"

text \<open>The platform on which none of these calls throws.\<close>

definition reliable :: platform where
  "reliable =
     \<lparr>getItemThrows = (\<lambda>k. None), removeItemThrows = (\<lambda>k. None),
      setItemThrows = (\<lambda>k v. None), newClientThrows = None\<rparr>"

text \<open>
  How a run ends: \<open>Done\<close> in a state, or \<open>Threw\<close> with an error that no handler of
  the component catches, in the state reached.
\<close>

datatype result = Done world | Threw exn world

fun stateOf :: "result \<Rightarrow> world" where
  "stateOf (Done w) = w"
| "stateOf (Threw x w) = w"

text \<open>
  The outer \<open>catch\<close> and the \<open>finally\<close> (lines 99 to 134). In a refresh the
  \<open>getItem\<close> of line 110 is inside no \<open>try\<close>: when it throws, the \<open>finally\<close>
  runs and the error leaves \<open>fetchNews\<close>.
\<close>

definition onFailureOn ::
  "platform \<Rightarrow> env \<Rightarrow> string \<Rightarrow> bool \<Rightarrow> exn \<Rightarrow> world \<Rightarrow> result" where
  "onFailureOn p e language isRefresh err w =
     (if isRefresh then
        (case getItemThrows p (cacheKey language) of
           Some x \<Rightarrow> Threw x (finallyBlock isRefresh w)
         | None \<Rightarrow> Done (finallyBlock isRefresh (onFailure e language isRefresh err w)))
      else Done (finallyBlock isRefresh (onFailure e language isRefresh err w)))"

text \<open>
  Lines 81 to 97 with what follows them. In a refresh the \<open>setItem\<close> of line 89 is
  inside the outer \<open>try\<close>: when it throws, after the articles were set, the outer
  \<open>catch\<close> runs. In a load-more the spread of line 92 and the \<open>setItem\<close> of
  line 94 are inside the function given to \<open>setArticles\<close>: when one throws, the
  articles are not set and no handler of the component catches the error (the
  \<open>finally\<close> has run).
\<close>

definition onSuccessOn ::
  "platform \<Rightarrow> env \<Rightarrow> string \<Rightarrow> bool \<Rightarrow> json list \<Rightarrow> world \<Rightarrow> result" where
  "onSuccessOn p e language isRefresh articlesData w =
     (let newArticles = newArticlesWithIds e (ticks w) 0 articlesData;
          t = ticks w + length articlesData
      in if isRefresh then
           (let w1 = w\<lparr>articles := JArr newArticles, ticks := Suc t\<rparr>;
                payload = jsonStringify e (cachePayload (clock e t) newArticles)
            in case setItemThrows p (cacheKey language) payload of
                 Some x \<Rightarrow> onFailureOn p e language isRefresh x w1
               | None \<Rightarrow>
                   Done (finallyBlock isRefresh
                     (w1\<lparr>store := (store w)(cacheKey language \<mapsto> payload)\<rparr>)))
         else
           (case spreadElements (articles w) of
              Inl x \<Rightarrow> Threw x (finallyBlock isRefresh (w\<lparr>ticks := t\<rparr>))
            | Inr prevArticles \<Rightarrow>
                (let allArticles = prevArticles @ newArticles;
                     payload = jsonStringify e (cachePayload (clock e t) allArticles)
                 in case setItemThrows p (cacheKey language) payload of
                      Some x \<Rightarrow> Threw x (finallyBlock isRefresh (w\<lparr>ticks := Suc t\<rparr>))
                    | None \<Rightarrow>
                        Done (finallyBlock isRefresh
                          (w\<lparr>articles := JArr allArticles, ticks := Suc t,
                             store := (store w)(cacheKey language \<mapsto> payload)\<rparr>)))))"

text \<open>
  Where \<open>fetchNews\<close> stands after its first part: it has returned at line 33
  (\<open>Served\<close>), it has sent its query and awaits the answer (\<open>Waiting\<close>), or it
  has ended without sending one (\<open>Ended\<close>).
\<close>

datatype stage = Served world | Waiting world | Ended result

fun stageState :: "stage \<Rightarrow> world" where
  "stageState (Served w) = w"
| "stageState (Waiting w) = w"
| "stageState (Ended r) = stateOf r"

text \<open>
  Lines 44 to 61, up to the \<open>await\<close>. The client is built first (line 46): when
  that throws, no date is read and no query is sent, and the outer \<open>catch\<close> runs.
\<close>

definition issueQueryOn ::
  "platform \<Rightarrow> env \<Rightarrow> string \<Rightarrow> bool \<Rightarrow> world \<Rightarrow> stage" where
  "issueQueryOn p e language isRefresh w =
     (case newClientThrows p of
        Some x \<Rightarrow> Ended (onFailureOn p e language isRefresh x (w\<lparr>error := None\<rparr>))
      | None \<Rightarrow> Waiting (issueQuery e language w))"

text \<open>
  Lines 21 to 61. The \<open>getItem\<close> of line 25 is inside no \<open>try\<close>, and neither is
  the \<open>removeItem\<close> of line 37, which is in a \<open>catch\<close>: when one throws, the
  error leaves \<open>fetchNews\<close> with the loading flag set at line 24.
\<close>

definition beginFetchOn ::
  "platform \<Rightarrow> env \<Rightarrow> string \<Rightarrow> bool \<Rightarrow> world \<Rightarrow> stage" where
  "beginFetchOn p e language isRefresh w =
     (if isRefresh then
        (let w1 = w\<lparr>loading := True\<rparr> in
         case getItemThrows p (cacheKey language) of
           Some x \<Rightarrow> Ended (Threw x w1)
         | None \<Rightarrow>
             (case store w1 (cacheKey language) of
                None \<Rightarrow> issueQueryOn p e language isRefresh w1
              | Some cachedData \<Rightarrow>
                  if cachedData = [] then issueQueryOn p e language isRefresh w1
                  else
                    (case freshCache e (ticks w1) cachedData of
                       (r, t) \<Rightarrow>
                         (case r of
                            Inr (Some cachedArticles) \<Rightarrow>
                              Served (w1\<lparr>ticks := t, articles := cachedArticles,
                                          loading := False, error := None\<rparr>)
                          | Inr None \<Rightarrow> issueQueryOn p e language isRefresh (w1\<lparr>ticks := t\<rparr>)
                          | Inl x \<Rightarrow>
                              (case removeItemThrows p (cacheKey language) of
                                 Some y \<Rightarrow> Ended (Threw y (w1\<lparr>ticks := t\<rparr>))
                               | None \<Rightarrow>
                                   issueQueryOn p e language isRefresh
                                     (w1\<lparr>ticks := t,
                                         store := (store w1)(cacheKey language := None)\<rparr>))))))
      else issueQueryOn p e language isRefresh (w\<lparr>fetchingMore := True\<rparr>))"

text \<open>Lines 62 to 134: \<open>fetchNews\<close> from the answer of its query on.\<close>

definition completeFetchOn ::
  "platform \<Rightarrow> env \<Rightarrow> string \<Rightarrow> bool \<Rightarrow> remoteResult \<Rightarrow> world \<Rightarrow> result" where
  "completeFetchOn p e language isRefresh outcome w =
     (case fetched e outcome of
        Inr articlesData \<Rightarrow> onSuccessOn p e language isRefresh articlesData w
      | Inl err \<Rightarrow> onFailureOn p e language isRefresh err w)"

text \<open>
  \<open>fetchNews(isRefresh)\<close> for the language of the component, with the answer that
  its query gets if it sends one.
\<close>

definition fetchNewsOn ::
  "platform \<Rightarrow> env \<Rightarrow> string \<Rightarrow> bool \<Rightarrow> remoteResult \<Rightarrow> world \<Rightarrow> result" where
  "fetchNewsOn p e language isRefresh outcome w =
     (case beginFetchOn p e language isRefresh w of
        Served w' \<Rightarrow> Done w'
      | Waiting w' \<Rightarrow> completeFetchOn p e language isRefresh outcome w'
      | Ended r \<Rightarrow> r)"


subsection \<open>A concrete environment\<close>

text \<open>
  A small environment on which the definitions run: a clock that starts at
  \<open>5000000\<close> ms and advances by 10 ms at each reading, and the \<open>JSON.parse\<close> and
  \<open>JSON.stringify\<close> of the few texts and payloads used below (any other text is a
  syntax error).
\<close>

definition articleA :: json where
  "articleA = JObj [(''title'', JStr ''A''), (''summary'', JStr ''s''),
                    (''category'', JStr ''c''), (''sourceUrl'', JStr ''u'')]"

definition articleB :: json where
  "articleB = JObj [(''title'', JStr ''B''), (''summary'', JStr ''t''),
                    (''category'', JStr ''c''), (''sourceUrl'', JStr ''v''), (''id'', JNum 7)]"

definition arrayText :: string where
  \<open>arrayText = ''[ {"title":"A","summary":"s","category":"c","sourceUrl":"u"} ]''\<close>

definition responseText :: string where
  \<open>responseText = ''noise {not json} '' @ arrayText @ '' trailing''\<close>

definition freshText :: string where
  \<open>freshText = ''{"timestamp":4999000,"articles":[{"title":"B","summary":"t","category":"c","sourceUrl":"v","id":7}]}''\<close>

definition staleText :: string where
  \<open>staleText = ''{"timestamp":1000,"articles":[{"title":"B","summary":"t","category":"c","sourceUrl":"v","id":7}]}''\<close>

definition emptyText :: string where
  \<open>emptyText = ''{"timestamp":4999000,"articles":[]}''\<close>

text \<open>
  What a first refresh writes, from the clock above: the new article has the id
  \<open>5000010\<close> and the payload the timestamp \<open>5000020\<close>; and what a load-more
  writes over the article \<open>B\<close>.
\<close>

definition articleA1 :: json where
  "articleA1 = JObj [(''title'', JStr ''A''), (''summary'', JStr ''s''),
                     (''category'', JStr ''c''), (''sourceUrl'', JStr ''u''),
                     (''id'', JNum 5000010)]"

definition refreshedText :: string where
  \<open>refreshedText = ''{"timestamp":5000020,"articles":[{"title":"A","summary":"s","category":"c","sourceUrl":"u","id":5000010}]}''\<close>

definition moreText :: string where
  \<open>moreText = ''{"timestamp":5000020,"articles":[{"title":"B","summary":"t","category":"c","sourceUrl":"v","id":7},{"title":"A","summary":"s","category":"c","sourceUrl":"u","id":5000010}]}''\<close>

definition sampleParse :: "string \<Rightarrow> exn + json" where
  "sampleParse s =
     (if s = arrayText then Inr (JArr [articleA])
      else if s = freshText then Inr (cachePayload 4999000 [articleB])
      else if s = staleText then Inr (cachePayload 1000 [articleB])
      else if s = emptyText then Inr (cachePayload 4999000 [])
      else if s = refreshedText then Inr (cachePayload 5000020 [articleA1])
      else if s = moreText then Inr (cachePayload 5000020 [articleB, articleA1])
      else Inl (JsError ''SyntaxError'' ''Unexpected token''))"

definition sampleStringify :: "json \<Rightarrow> string" where
  "sampleStringify v =
     (if v = cachePayload 4999000 [articleB] then freshText
      else if v = cachePayload 1000 [articleB] then staleText
      else if v = cachePayload 4999000 [] then emptyText
      else if v = cachePayload 5000020 [articleA1] then refreshedText
      else if v = cachePayload 5000020 [articleB, articleA1] then moreText
      else ''{}'')"

definition sampleEnv :: env where
  "sampleEnv =
     \<lparr>jsonParse = sampleParse,
      jsonStringify = sampleStringify,
      toNumber = (\<lambda>v. Inr None),
      clock = (\<lambda>n. 5000000 + 10 * int n)\<rparr>"

text \<open>The state of the component when it is mounted, over a given cache store.\<close>

definition mounted :: "(string \<rightharpoonup> string) \<Rightarrow> world" where
  "mounted st =
     \<lparr>store = st, articles = JArr [], loading = True, fetchingMore = False,
      error = None, queries = [], ticks = 0\<rparr>"

text \<open>Two errors a query can be rejected with.\<close>

definition rateLimited :: exn where
  "rateLimited = JsError ''ApiError'' ''got status: 429 Too Many Requests''"

definition offline :: exn where
  "offline = JsError ''TypeError'' ''Failed to fetch''"

text \<open>
  Payloads that are not of the type the program writes: the articles are a string, or
  an object with a length; and the payload \<open>null\<close>. The environment that decodes
  them as well.
\<close>

definition stringText :: string where
  \<open>stringText = ''{"timestamp":1000,"articles":"ab"}''\<close>

definition objectText :: string where
  \<open>objectText = ''{"timestamp":4999000,"articles":{"length":1}}''\<close>

definition looseEnv :: env where
  "looseEnv =
     sampleEnv\<lparr>jsonParse :=
       (\<lambda>s. if s = stringText
              then Inr (JObj [(''timestamp'', JNum 1000), (''articles'', JStr ''ab'')])
            else if s = objectText
              then Inr (JObj [(''timestamp'', JNum 4999000),
                              (''articles'', JObj [(''length'', JNum 1)])])
            else if s = ''null'' then Inr JNull
            else sampleParse s)\<rparr>"






definition apiKeyError :: exn where
  "apiKeyError = JsError ''Error'' ''An API Key must be set when running in a browser''"

definition keyless :: platform where
  "keyless = reliable\<lparr>newClientThrows := Some apiKeyError\<rparr>"

section \<open>Properties\<close>

subsection \<open>The string operations\<close>

lemma indexOf_ge: "- 1 \<le> indexOf s c"
  by (induction s) (auto simp: Let_def)

lemma indexOf_absent: "indexOf s c = - 1 \<longleftrightarrow> c \<notin> set s"
proof (induction s)
  case Nil then show ?case by simp
next
  case (Cons x xs)
  have "- 1 \<le> indexOf xs c" by (rule indexOf_ge)
  with Cons show ?case by (auto simp: Let_def)
qed

lemma lastIndexOf_ge: "- 1 \<le> lastIndexOf s c"
  by (induction s) (auto simp: Let_def)

lemma indexOf_first:
  "c \<in> set s \<Longrightarrow> 0 \<le> indexOf s c \<and> nat (indexOf s c) < length s \<and> s ! nat (indexOf s c) = c
     \<and> (\<forall>k < nat (indexOf s c). s ! k \<noteq> c)"
proof (induction s)
  case Nil then show ?case by simp
next
  case (Cons x xs)
  show ?case
  proof (cases "x = c")
    case True then show ?thesis by simp
  next
    case False
    with Cons.prems have m: "c \<in> set xs" by simp
    from Cons.IH[OF m] have ih: "0 \<le> indexOf xs c" "nat (indexOf xs c) < length xs"
      "xs ! nat (indexOf xs c) = c" "\<forall>k < nat (indexOf xs c). xs ! k \<noteq> c" by auto
    have ne: "indexOf xs c \<noteq> - 1" using ih(1) by simp
    have e: "indexOf (x # xs) c = indexOf xs c + 1" using False ne by (simp add: Let_def)
    have n: "nat (indexOf xs c + 1) = Suc (nat (indexOf xs c))" using ih(1) by simp
    show ?thesis unfolding e n using ih False
      by (auto simp: nth_Cons split: nat.splits)
  qed
qed

lemma lastIndexOf_absent: "lastIndexOf s c = - 1 \<longleftrightarrow> c \<notin> set s"
proof (induction s)
  case Nil then show ?case by simp
next
  case (Cons x xs)
  have "- 1 \<le> lastIndexOf xs c" by (rule lastIndexOf_ge)
  with Cons show ?case by (auto simp: Let_def)
qed

lemma lastIndexOf_last:
  "c \<in> set s \<Longrightarrow> 0 \<le> lastIndexOf s c \<and> nat (lastIndexOf s c) < length s \<and> s ! nat (lastIndexOf s c) = c
     \<and> (\<forall>k < length s. nat (lastIndexOf s c) < k \<longrightarrow> s ! k \<noteq> c)"
proof (induction s)
  case Nil then show ?case by simp
next
  case (Cons x xs)
  show ?case
  proof (cases "c \<in> set xs")
    case True
    from Cons.IH[OF True] have ih: "0 \<le> lastIndexOf xs c" "nat (lastIndexOf xs c) < length xs"
      "xs ! nat (lastIndexOf xs c) = c" "\<forall>k < length xs. nat (lastIndexOf xs c) < k \<longrightarrow> xs ! k \<noteq> c" by auto
    have ne: "lastIndexOf xs c \<noteq> - 1" using ih(1) by simp
    have e: "lastIndexOf (x # xs) c = lastIndexOf xs c + 1" using ne by (simp add: Let_def)
    have n: "nat (lastIndexOf xs c + 1) = Suc (nat (lastIndexOf xs c))" using ih(1) by simp
    show ?thesis unfolding e n using ih
      by (auto simp: nth_Cons split: nat.splits)
  next
    case False
    then have a: "lastIndexOf xs c = - 1" by (simp add: lastIndexOf_absent)
    from False Cons.prems have xc: "x = c" by simp
    have e: "lastIndexOf (x # xs) c = 0" using a xc by (simp add: Let_def)
    show ?thesis unfolding e using False xc
      by (auto simp: nth_Cons split: nat.splits)
  qed
qed

lemma set_trim: "\<not> isWhiteSpace c \<Longrightarrow> c \<in> set (trim t) \<longleftrightarrow> c \<in> set t"
proof -
  assume nw: "\<not> isWhiteSpace c"
  have dw: "\<And>xs. c \<in> set (dropWhile isWhiteSpace xs) \<longleftrightarrow> c \<in> set xs"
  proof -
    fix xs show "c \<in> set (dropWhile isWhiteSpace xs) \<longleftrightarrow> c \<in> set xs"
      using nw by (induction xs) auto
  qed
  show ?thesis unfolding trim_def by (simp add: dw)
qed

lemma substring_slice:
  "0 \<le> a \<Longrightarrow> a \<le> b \<Longrightarrow> b \<le> int (length s) \<Longrightarrow> substring s a b = take (nat b - nat a) (drop (nat a) s)"
  by (simp add: substring_def Let_def min_def max_def nat_diff_distrib)


lemma parseBody_Some:
  "parseBody e (Some t) =
     (if CHR ''['' \<notin> set t \<or> CHR '']'' \<notin> set t
         \<or> lastIndexOf (trim t) (CHR '']'') < indexOf (trim t) (CHR ''['')
      then Inl noArrayFound
      else jsonParse e
             (take (nat (lastIndexOf (trim t) (CHR '']'')) + 1 - nat (indexOf (trim t) (CHR ''['')))
                (drop (nat (indexOf (trim t) (CHR ''[''))) (trim t))))"
proof -
  let ?s = "trim t"
  let ?i = "indexOf ?s (CHR ''['')"
  let ?j = "lastIndexOf ?s (CHR '']'')"
  have wl: "\<not> isWhiteSpace (CHR ''['')" and wr: "\<not> isWhiteSpace (CHR '']'')"
    by (simp_all add: isWhiteSpace_def)
  have il: "?i = - 1 \<longleftrightarrow> CHR ''['' \<notin> set t"
    by (simp add: indexOf_absent set_trim [OF wl])
  have jr: "?j = - 1 \<longleftrightarrow> CHR '']'' \<notin> set t"
    by (simp add: lastIndexOf_absent set_trim [OF wr])
  show ?thesis
  proof (cases "CHR ''['' \<notin> set t \<or> CHR '']'' \<notin> set t \<or> ?j < ?i")
    case True
    then show ?thesis using il jr by (auto simp: parseBody_def Let_def)
  next
    case False
    then have inl: "CHR ''['' \<in> set ?s" and inr: "CHR '']'' \<in> set ?s" and le: "?i \<le> ?j"
      by (auto simp: set_trim [OF wl] set_trim [OF wr])
    from indexOf_first [OF inl] have i0: "0 \<le> ?i" by simp
    from lastIndexOf_last [OF inr] have jn: "nat ?j < length ?s" and j0: "0 \<le> ?j" by simp_all
    have sl: "substring ?s ?i (?j + 1) = take (nat (?j + 1) - nat ?i) (drop (nat ?i) ?s)"
      using i0 le jn j0 by (intro substring_slice) auto
    have n: "nat (?j + 1) = nat ?j + 1" using j0 by simp
    from False have c: "\<not> (?i = - 1 \<or> ?j = - 1 \<or> ?j < ?i)" using il jr by simp
    have "parseBody e (Some t) = jsonParse e (substring ?s ?i (?j + 1))"
      using c by (simp add: parseBody_def Let_def)
    then show ?thesis using False sl n by simp
  qed
qed

lemma fetched_failed_parse:
  "parseBody e text = Inl x \<Longrightarrow> fetched e (Resolved text) = Inl failedToParse"
  by (simp add: fetched_def parseResponse_def)

lemma completeFetch_failure:
  "fetched e outcome = Inl err \<Longrightarrow>
   completeFetch e language isRefresh outcome w =
     Inr (finallyBlock isRefresh (onFailure e language isRefresh err w))"
  by (simp add: completeFetch_def)

subsection \<open>The response parser\<close>

text \<open>
  Claim C3, as the code has it. The parser works on the trimmed text. Its body locates
  the first \<open>[\<close> and the last \<open>]\<close>; when either is absent or the \<open>]\<close> comes
  before the \<open>[\<close>, the body throws the "no valid JSON array found" error, and
  otherwise it decodes the slice from the one to the other. The \<open>catch\<close> around
  the body replaces every error of the body, the "no valid JSON array found" error
  like a decoding error, by the one error "Failed to parse news data.": that is the
  error that leaves the parser. For a text without \<open>[\<close> the fetch does not throw:
  it ends in the state that the failure handler and the \<open>finally\<close> block give.
\<close>

theorem parser_failures_surface_as_failed_to_parse:
  "parseBody e (Some t) =
     (if CHR ''['' \<notin> set t \<or> CHR '']'' \<notin> set t
         \<or> lastIndexOf (trim t) (CHR '']'') < indexOf (trim t) (CHR ''['')
      then Inl noArrayFound
      else jsonParse e
             (take (nat (lastIndexOf (trim t) (CHR '']'')) + 1 - nat (indexOf (trim t) (CHR ''['')))
                (drop (nat (indexOf (trim t) (CHR ''[''))) (trim t))))
   \<and> parseResponse e (Some t) =
       (case parseBody e (Some t) of Inl x \<Rightarrow> Inl failedToParse | Inr v \<Rightarrow> Inr v)
   \<and> (CHR ''['' \<in> set t \<longrightarrow>
        trim t ! nat (indexOf (trim t) (CHR ''['')) = CHR ''[''
        \<and> (\<forall>k < nat (indexOf (trim t) (CHR ''['')). trim t ! k \<noteq> CHR ''[''))
   \<and> (CHR '']'' \<in> set t \<longrightarrow>
        trim t ! nat (lastIndexOf (trim t) (CHR '']'')) = CHR '']''
        \<and> (\<forall>k < length (trim t). nat (lastIndexOf (trim t) (CHR '']'')) < k \<longrightarrow> trim t ! k \<noteq> CHR '']''))
   \<and> (CHR ''['' \<notin> set t \<longrightarrow>
        parseResponse e (Some t) = Inl failedToParse
        \<and> completeFetch e language isRefresh (Resolved (Some t)) w =
            Inr (finallyBlock isRefresh (onFailure e language isRefresh failedToParse w)))"
proof -
  have wl: "\<not> isWhiteSpace (CHR ''['')" and wr: "\<not> isWhiteSpace (CHR '']'')"
    by (simp_all add: isWhiteSpace_def)
  have a: "CHR ''['' \<in> set t \<longrightarrow>
        trim t ! nat (indexOf (trim t) (CHR ''['')) = CHR ''[''
        \<and> (\<forall>k < nat (indexOf (trim t) (CHR ''['')). trim t ! k \<noteq> CHR ''['')"
    using indexOf_first [of "CHR ''[''" "trim t"] by (simp add: set_trim [OF wl])
  have b: "CHR '']'' \<in> set t \<longrightarrow>
        trim t ! nat (lastIndexOf (trim t) (CHR '']'')) = CHR '']''
        \<and> (\<forall>k < length (trim t). nat (lastIndexOf (trim t) (CHR '']'')) < k \<longrightarrow> trim t ! k \<noteq> CHR '']'')"
    using lastIndexOf_last [of "CHR '']''" "trim t"] by (simp add: set_trim [OF wr])
  have c: "CHR ''['' \<notin> set t \<longrightarrow>
        parseResponse e (Some t) = Inl failedToParse
        \<and> completeFetch e language isRefresh (Resolved (Some t)) w =
            Inr (finallyBlock isRefresh (onFailure e language isRefresh failedToParse w))"
  proof
    assume n: "CHR ''['' \<notin> set t"
    then have pb: "parseBody e (Some t) = Inl noArrayFound" by (simp add: parseBody_Some)
    show "parseResponse e (Some t) = Inl failedToParse
        \<and> completeFetch e language isRefresh (Resolved (Some t)) w =
            Inr (finallyBlock isRefresh (onFailure e language isRefresh failedToParse w))"
      using fetched_failed_parse [OF pb] completeFetch_failure pb
      by (simp add: parseResponse_def)
  qed
  show ?thesis using a b c parseBody_Some [of e t]
    by (simp add: parseResponse_def)
qed

text \<open>
  The theorem on the response \<open>noise {not json} [ ... ] trailing\<close>, whose array is
  decoded, and on a response without brackets, which ends with the generic message.
\<close>

theorem parser_failures_surface_as_failed_to_parse_witness:
  "CHR ''['' \<in> set responseText \<and> CHR '']'' \<in> set responseText
   \<and> parseResponse sampleEnv (Some responseText) = Inr (JArr [articleA])
   \<and> trim responseText ! 17 = CHR ''[''
   \<and> CHR ''['' \<notin> set ''Sorry, no news today.''
   \<and> parseResponse sampleEnv (Some ''Sorry, no news today.'') = Inl failedToParse
   \<and> error (projr (completeFetch sampleEnv ''en'' True (Resolved (Some ''Sorry, no news today.''))
        (mounted Map.empty))) = Some failedMessage"
proof -
  have l: "CHR ''['' \<in> set responseText" and r: "CHR '']'' \<in> set responseText"
    by (simp_all add: responseText_def arrayText_def)
  have n: "CHR ''['' \<notin> set ''Sorry, no news today.''" by simp
  have t: "trim responseText = responseText"
    by (simp add: trim_def responseText_def arrayText_def isWhiteSpace_def)
  have i: "indexOf responseText (CHR ''['') = 17"
    by (simp add: responseText_def arrayText_def Let_def)
  have rl: "failedMessage = userMessage failedToParse"
    by (simp add: userMessage_def isRateLimitError_def failedToParse_def)
  note a = parser_failures_surface_as_failed_to_parse [of sampleEnv responseText "''en''" True "mounted Map.empty"]
  note b = parser_failures_surface_as_failed_to_parse [of sampleEnv "''Sorry, no news today.''" "''en''" True "mounted Map.empty"]
  have p: "parseResponse sampleEnv (Some responseText) = Inr (JArr [articleA])"
    by (simp add: parseResponse_def parseBody_def t, simp add: responseText_def arrayText_def Let_def substring_def sampleEnv_def sampleParse_def)
  have q: "trim responseText ! 17 = CHR ''[''" using a l i t by simp
  have c: "parseResponse sampleEnv (Some ''Sorry, no news today.'') = Inl failedToParse" 
    and d: "completeFetch sampleEnv ''en'' True (Resolved (Some ''Sorry, no news today.'')) (mounted Map.empty) =
            Inr (finallyBlock True (onFailure sampleEnv ''en'' True failedToParse (mounted Map.empty)))"
    using b n by blast+
  have e: "error (projr (completeFetch sampleEnv ''en'' True (Resolved (Some ''Sorry, no news today.''))
        (mounted Map.empty))) = Some failedMessage"
    unfolding d by (simp add: finallyBlock_def onFailure_def mounted_def staleCache_def rl)
  show ?thesis using l r n p q c e by simp
qed

text \<open>
  Against C3 as stated: on a text with no \<open>[\<close> the body throws the "no valid JSON
  array found" error, and the parser fails with another error.
\<close>

theorem no_array_error_replaced_counterexample:
  "parseBody sampleEnv (Some ''Sorry, no news today.'') = Inl noArrayFound
   \<and> parseResponse sampleEnv (Some ''Sorry, no news today.'') \<noteq> Inl noArrayFound"
  by (simp add: parseBody_def parseResponse_def trim_def isWhiteSpace_def Let_def
      noArrayFound_def failedToParse_def)

subsection \<open>Refresh and the cache\<close>

lemma freshCache_fresh:
  assumes "jsonParse e cachedData = Inr (JObj kvs)"
    and "map_of kvs ''timestamp'' = Some (JNum ts)"
    and "map_of kvs ''articles'' = Some (JArr as)"
  shows "freshCache e t cachedData =
     (Inr (if clock e t - ts < CACHE_DURATION \<and> as \<noteq> [] then Some (JArr as) else None), Suc t)"
  using assms by (simp add: freshCache_def nonEmpty_def greaterZero_def Let_def)

text \<open>
  Claim C1. When the cache store holds, for the language, a text that \<open>JSON.parse\<close>
  decodes to a payload whose timestamp is less than 15 minutes before the time read and
  whose articles are a non-empty list, a refresh returns before it sends a query: the
  queries are those of before, the articles are the cached ones, the error is
  \<open>null\<close> and the loading flag is cleared. The answer that a query would get plays
  no part. (The text is not empty: line 26 takes the empty text for no entry, and no
  \<open>JSON.parse\<close> decodes it.)
\<close>

theorem refresh_served_from_fresh_cache:
  assumes "store w (cacheKey language) = Some cachedData"
    and "cachedData \<noteq> []"
    and "jsonParse e cachedData = Inr (JObj kvs)"
    and "map_of kvs ''timestamp'' = Some (JNum ts)"
    and "map_of kvs ''articles'' = Some (JArr as)"
    and "as \<noteq> []"
    and "clock e (ticks w) - ts < 15 * 60 * 1000"
  shows "beginFetch e language True w =
           Returned (w\<lparr>articles := JArr as, loading := False, error := None,
                       ticks := Suc (ticks w)\<rparr>)
       \<and> fetchNews e language True outcome w =
           Inr (w\<lparr>articles := JArr as, loading := False, error := None,
                  ticks := Suc (ticks w)\<rparr>)
       \<and> queries (projr (fetchNews e language True outcome w)) = queries w"
proof -
  have f: "freshCache e (ticks w) cachedData = (Inr (Some (JArr as)), Suc (ticks w))"
    using assms(3-7) by (simp add: freshCache_fresh CACHE_DURATION_def)
  have b: "beginFetch e language True w =
           Returned (w\<lparr>articles := JArr as, loading := False, error := None,
                       ticks := Suc (ticks w)\<rparr>)"
    using assms(1,2) f by (simp add: beginFetch_def)
  show ?thesis using b by (simp add: fetchNews_def)
qed

text \<open>The theorem on the mounted component over a payload that is one second old.\<close>

theorem refresh_served_from_fresh_cache_witness:
  "fetchNews sampleEnv ''en'' True (Rejected offline) (mounted [cacheKey ''en'' \<mapsto> freshText]) =
     Inr ((mounted [cacheKey ''en'' \<mapsto> freshText])
            \<lparr>articles := JArr [articleB], loading := False, error := None, ticks := 1\<rparr>)"
proof -
  have p: "jsonParse sampleEnv freshText = Inr (JObj [(''timestamp'', JNum 4999000), (''articles'', JArr [articleB])])"
    by (simp add: sampleEnv_def sampleParse_def cachePayload_def freshText_def arrayText_def)
  have c: "clock sampleEnv (ticks (mounted [cacheKey ''en'' \<mapsto> freshText])) - 4999000 < 15 * 60 * 1000"
    by (simp add: sampleEnv_def mounted_def)
  have ne: "freshText \<noteq> []" by (simp add: freshText_def)
  show ?thesis
    using refresh_served_from_fresh_cache [of "mounted [cacheKey ''en'' \<mapsto> freshText]" "''en''" freshText
        sampleEnv "[(''timestamp'', JNum 4999000), (''articles'', JArr [articleB])]" 4999000 "[articleB]" "Rejected offline",
        OF _ ne p _ _ _ c]
    by (simp add: mounted_def)
qed


lemma beginFetch_store:
  "beginFetch e language isRefresh w = Returned w' \<Longrightarrow> store w' = store w"
  "beginFetch e language isRefresh w = Awaiting w' \<Longrightarrow>
     store w' = store w
     \<or> (isRefresh \<and> store w' = (store w)(cacheKey language := None)
        \<and> (\<exists>s x. store w (cacheKey language) = Some s \<and> s \<noteq> []
              \<and> fst (freshCache e (ticks w) s) = Inl x))"
  by (auto simp: beginFetch_def issueQuery_def Let_def
      split: option.splits if_splits prod.splits sum.splits)

lemma sampleParse_stale:
  "jsonParse sampleEnv staleText = Inr (JObj [(''timestamp'', JNum 1000), (''articles'', JArr [articleB])])"
  by (simp add: sampleEnv_def sampleParse_def cachePayload_def staleText_def freshText_def arrayText_def)

lemma sampleParse_corrupt:
  "jsonParse sampleEnv ''{oops'' = Inl (JsError ''SyntaxError'' ''Unexpected token'')"
  by (simp add: sampleEnv_def sampleParse_def staleText_def freshText_def arrayText_def emptyText_def
      refreshedText_def moreText_def)

subsection \<open>A failed refresh\<close>

lemma staleCache_articles:
  assumes "cachedData \<noteq> []" and "jsonParse e cachedData = Inr (JObj kvs)"
    and "map_of kvs ''articles'' = Some (JArr as)"
  shows "staleCache e (Some cachedData) = (if as \<noteq> [] then Some (JArr as) else None)"
  using assms by (simp add: staleCache_def staleBody_def nonEmpty_def greaterZero_def)

lemma rateLimited_is: "isRateLimitError rateLimited"
  by (simp add: isRateLimitError_def rateLimited_def)

lemma offline_is_not: "\<not> isRateLimitError offline"
  by (simp add: isRateLimitError_def offline_def)

subsection \<open>Load more\<close>

lemma beginFetch_loadMore:
  "beginFetch e language False w =
     Awaiting (w\<lparr>fetchingMore := True, error := None,
                 queries := queries w @ [(language, clock e (ticks w))],
                 ticks := Suc (ticks w)\<rparr>)"
  by (simp add: beginFetch_def issueQuery_def)

lemma moreMessage_wording:
  "moreMessage err =
     (if includesStr (toString err) ''429'' \<or> includesStr (toString err) ''RESOURCE_EXHAUSTED''
      then ''Could not load more articles due to high demand.''
      else ''Could not load more articles.'')"
  by (simp add: moreMessage_def isRateLimitError_def)

lemma completeFetch_loadMore_failure:
  "fetched e outcome = Inl err \<Longrightarrow>
   completeFetch e language False outcome w =
     Inr (w\<lparr>error := Some (moreMessage err), fetchingMore := False\<rparr>)"
  by (simp add: completeFetch_failure onFailure_def finallyBlock_def)

text \<open>
  Claim C5. When the fetch of a load-more fails with the error \<open>err\<close>, whatever the
  error, the run ends in the state it started from but for the error, which is the
  short message (with the high-demand wording exactly when the string form of
  \<open>err\<close> contains \<open>429\<close> or \<open>RESOURCE_EXHAUSTED\<close>), the record of the query
  sent and the flag, which is cleared: the articles and the cache store are those of
  before.
\<close>

theorem failed_loadMore_keeps_articles_and_cache:
  assumes "fetched e outcome = Inl err"
  shows "fetchNews e language False outcome w =
           Inr (w\<lparr>fetchingMore := False, error := Some (moreMessage err),
                  queries := queries w @ [(language, clock e (ticks w))],
                  ticks := Suc (ticks w)\<rparr>)
       \<and> articles (projr (fetchNews e language False outcome w)) = articles w
       \<and> store (projr (fetchNews e language False outcome w)) = store w
       \<and> moreMessage err =
           (if includesStr (toString err) ''429''
               \<or> includesStr (toString err) ''RESOURCE_EXHAUSTED''
            then ''Could not load more articles due to high demand.''
            else ''Could not load more articles.'')"
proof -
  have "fetchNews e language False outcome w =
           Inr (w\<lparr>fetchingMore := False, error := Some (moreMessage err),
                  queries := queries w @ [(language, clock e (ticks w))],
                  ticks := Suc (ticks w)\<rparr>)"
    by (simp add: fetchNews_def beginFetch_loadMore completeFetch_loadMore_failure [OF assms])
  then show ?thesis by (simp add: moreMessage_wording)
qed

text \<open>
  The theorem on a load-more over the article \<open>B\<close> whose query is rejected, once
  for a network failure and once for a rate limit.
\<close>

theorem failed_loadMore_keeps_articles_and_cache_witness:
  "fetchNews sampleEnv ''en'' False (Rejected offline)
       ((mounted [cacheKey ''en'' \<mapsto> freshText])\<lparr>articles := JArr [articleB], loading := False\<rparr>) =
     Inr ((mounted [cacheKey ''en'' \<mapsto> freshText])
       \<lparr>articles := JArr [articleB], loading := False,
        error := Some ''Could not load more articles.'',
        queries := [(''en'', 5000000)], ticks := 1\<rparr>)
   \<and> error (projr (fetchNews sampleEnv ''en'' False (Rejected rateLimited)
       ((mounted [cacheKey ''en'' \<mapsto> freshText])\<lparr>articles := JArr [articleB], loading := False\<rparr>))) =
     Some ''Could not load more articles due to high demand.''"
proof -
  have f: "\<And>x. fetched sampleEnv (Rejected x) = Inl x" by (simp add: fetched_def)
  have m: "moreMessage offline = ''Could not load more articles.''"
    "moreMessage rateLimited = ''Could not load more articles due to high demand.''"
    using rateLimited_is offline_is_not by (simp_all add: moreMessage_def)
  have a: "fetchNews sampleEnv ''en'' False (Rejected offline)
       ((mounted [cacheKey ''en'' \<mapsto> freshText])\<lparr>articles := JArr [articleB], loading := False\<rparr>) =
     Inr ((mounted [cacheKey ''en'' \<mapsto> freshText])
       \<lparr>articles := JArr [articleB], loading := False,
        error := Some ''Could not load more articles.'',
        queries := [(''en'', 5000000)], ticks := 1\<rparr>)"
    using failed_loadMore_keeps_articles_and_cache [OF f [of offline], where language = "''en''"
        and w = "(mounted [cacheKey ''en'' \<mapsto> freshText])\<lparr>articles := JArr [articleB], loading := False\<rparr>"]
    by (simp add: m mounted_def sampleEnv_def)
  have b: "error (projr (fetchNews sampleEnv ''en'' False (Rejected rateLimited)
       ((mounted [cacheKey ''en'' \<mapsto> freshText])\<lparr>articles := JArr [articleB], loading := False\<rparr>))) =
     Some ''Could not load more articles due to high demand.''"
    using failed_loadMore_keeps_articles_and_cache [OF f [of rateLimited], where language = "''en''"
        and w = "(mounted [cacheKey ''en'' \<mapsto> freshText])\<lparr>articles := JArr [articleB], loading := False\<rparr>"]
    by (simp add: m)
  show ?thesis using a b by simp
qed

lemma sample_fetched:
  "fetched sampleEnv (Resolved (Some responseText)) = Inr [articleA]"
proof -
  have t: "trim responseText = responseText"
    by (simp add: trim_def responseText_def arrayText_def isWhiteSpace_def)
  have "parseBody sampleEnv (Some responseText) = Inr (JArr [articleA])"
    by (simp add: parseBody_def t, simp add: responseText_def arrayText_def Let_def substring_def sampleEnv_def sampleParse_def)
  then show ?thesis by (simp add: fetched_def parseResponse_def)
qed

lemma sample_new_article:
  "JObj (AList.update ''id'' (JNum (clock sampleEnv (Suc 0))) (ownProps articleA)) = articleA1"
  by (simp add: articleA_def articleA1_def sampleEnv_def)

subsection \<open>No failure leaves the operation\<close>

lemma fetched_rejected: "fetched e (Rejected x) = Inl x"
  by (simp add: fetched_def)

subsection \<open>Writes to the cache store\<close>

lemma completeFetch_store:
  "completeFetch e language isRefresh outcome w = Inr w' \<Longrightarrow>
     (\<exists>err. fetched e outcome = Inl err \<and> store w' = store w)
     \<or> (\<exists>articlesData t as. fetched e outcome = Inr articlesData
           \<and> store w' = (store w)(cacheKey language \<mapsto> jsonStringify e (cachePayload t as)))"
proof (cases "fetched e outcome")
  case (Inl err)
  assume "completeFetch e language isRefresh outcome w = Inr w'"
  with Inl show ?thesis
    by (auto simp: completeFetch_failure onFailure_def finallyBlock_def
        split: option.splits if_splits)
next
  case (Inr articlesData)
  assume c: "completeFetch e language isRefresh outcome w = Inr w'"
  show ?thesis
  proof (cases isRefresh)
    case True
    with c Inr have
      "store w' = (store w)(cacheKey language \<mapsto> jsonStringify e
         (cachePayload (clock e (ticks w + length articlesData))
            (newArticlesWithIds e (ticks w) 0 articlesData)))"
      by (auto simp: completeFetch_def onSuccess_def finallyBlock_def Let_def)
    with Inr show ?thesis by blast
  next
    case False
    with c Inr obtain prevArticles where
      "store w' = (store w)(cacheKey language \<mapsto> jsonStringify e
         (cachePayload (clock e (ticks w + length articlesData))
            (prevArticles @ newArticlesWithIds e (ticks w) 0 articlesData)))"
      by (auto simp: completeFetch_def onSuccess_def finallyBlock_def Let_def
          split: sum.splits)
    with Inr show ?thesis by blast
  qed
qed

text \<open>
  Claim C10. A refresh served from the cache leaves the cache store as it is, the entry
  with its timestamp included. After a failed fetch the handler leaves the store as it
  is, also when it adopts the cached articles. Over a whole run of \<open>fetchNews\<close>
  the store is unchanged, or the entry of the language was removed because reading it
  threw before the query (in a refresh), or the fetch succeeded and the entry of the
  language is a payload written then; a failed refresh never ends with an entry that
  was not there before.
\<close>

theorem cache_written_only_on_success:
  "(beginFetch e language isRefresh w = Returned wa \<longrightarrow> store wa = store w)
   \<and> (fetched e outcome = Inl err \<longrightarrow>
        (\<exists>w'. completeFetch e language isRefresh outcome w = Inr w' \<and> store w' = store w))
   \<and> (fetchNews e language isRefresh outcome w = Inr wb \<longrightarrow>
        store wb = store w
        \<or> (isRefresh \<and> store wb = (store w)(cacheKey language := None)
           \<and> (\<exists>s x. store w (cacheKey language) = Some s \<and> s \<noteq> []
                 \<and> fst (freshCache e (ticks w) s) = Inl x))
        \<or> (\<exists>articlesData t as. fetched e outcome = Inr articlesData
              \<and> store wb = (store w)(cacheKey language \<mapsto>
                    jsonStringify e (cachePayload t as))))
   \<and> (fetched e outcome = Inl err \<and> fetchNews e language True outcome w = Inr wb \<longrightarrow>
        store wb = store w \<or> store wb = (store w)(cacheKey language := None))"
proof -
  have a: "beginFetch e language isRefresh w = Returned wa \<longrightarrow> store wa = store w"
    by (simp add: beginFetch_store(1))
  have b: "fetched e outcome = Inl err \<longrightarrow>
        (\<exists>w'. completeFetch e language isRefresh outcome w = Inr w' \<and> store w' = store w)"
    by (auto simp: completeFetch_failure onFailure_def finallyBlock_def split: option.splits)
  have c: "fetchNews e language r outcome w = Inr wb \<longrightarrow>
        store wb = store w
        \<or> (r \<and> store wb = (store w)(cacheKey language := None)
           \<and> (\<exists>s x. store w (cacheKey language) = Some s \<and> s \<noteq> []
                 \<and> fst (freshCache e (ticks w) s) = Inl x))
        \<or> (\<exists>articlesData t as. fetched e outcome = Inr articlesData
              \<and> store wb = (store w)(cacheKey language \<mapsto>
                    jsonStringify e (cachePayload t as)))" for r
  proof
    assume f: "fetchNews e language r outcome w = Inr wb"
    show "store wb = store w
        \<or> (r \<and> store wb = (store w)(cacheKey language := None)
           \<and> (\<exists>s x. store w (cacheKey language) = Some s \<and> s \<noteq> []
                 \<and> fst (freshCache e (ticks w) s) = Inl x))
        \<or> (\<exists>articlesData t as. fetched e outcome = Inr articlesData
              \<and> store wb = (store w)(cacheKey language \<mapsto>
                    jsonStringify e (cachePayload t as)))"
    proof (cases "beginFetch e language r w")
      case (Returned w')
      with f have "wb = w'" by (simp add: fetchNews_def)
      with beginFetch_store(1) [OF Returned] show ?thesis by simp
    next
      case (Awaiting w')
      with f have cf: "completeFetch e language r outcome w' = Inr wb"
        by (simp add: fetchNews_def)
      from completeFetch_store [OF cf] beginFetch_store(2) [OF Awaiting]
      show ?thesis by (elim disjE exE conjE) (simp, simp, force, force)
    qed
  qed
  have d: "fetched e outcome = Inl err \<and> fetchNews e language True outcome w = Inr wb \<longrightarrow>
        store wb = store w \<or> store wb = (store w)(cacheKey language := None)"
    using c [of True] by auto
  show ?thesis using a b c [of isRefresh] d by blast
qed

text \<open>
  The theorem on a refresh served from a fresh payload, on a failed refresh over an old
  payload, and on a first refresh that succeeds.
\<close>

theorem cache_written_only_on_success_witness:
  "store (projr (fetchNews sampleEnv ''en'' True (Rejected offline)
       (mounted [cacheKey ''en'' \<mapsto> freshText]))) = [cacheKey ''en'' \<mapsto> freshText]
   \<and> store (projr (completeFetch sampleEnv ''en'' True (Rejected offline)
       ((mounted [cacheKey ''en'' \<mapsto> staleText])\<lparr>queries := [(''en'', 5000010)], ticks := 2\<rparr>)))
      = [cacheKey ''en'' \<mapsto> staleText]
   \<and> fetchNews sampleEnv ''en'' True (Resolved (Some responseText)) (mounted Map.empty) =
      Inr ((mounted [cacheKey ''en'' \<mapsto> refreshedText])
        \<lparr>articles := JArr [articleA1], loading := False,
         queries := [(''en'', 5000000)], ticks := 3\<rparr>)"
proof -
  define wf where "wf = mounted [cacheKey ''en'' \<mapsto> freshText]"
  define ws where
    "ws = (mounted [cacheKey ''en'' \<mapsto> staleText])\<lparr>queries := [(''en'', 5000010)], ticks := 2\<rparr>"
  have p: "jsonParse sampleEnv freshText =
      Inr (JObj [(''timestamp'', JNum 4999000), (''articles'', JArr [articleB])])"
    by (simp add: sampleEnv_def sampleParse_def cachePayload_def freshText_def arrayText_def)
  have fc: "freshCache sampleEnv 0 freshText = (Inr (Some (JArr [articleB])), Suc 0)"
    by (simp add: freshCache_fresh [OF p] CACHE_DURATION_def, simp add: sampleEnv_def)
  have ne: "freshText \<noteq> []" by (simp add: freshText_def)
  have b: "beginFetch sampleEnv ''en'' True wf =
      Returned (wf\<lparr>articles := JArr [articleB], loading := False, error := None, ticks := 1\<rparr>)"
    using ne fc by (simp add: beginFetch_def wf_def mounted_def)
  from cache_written_only_on_success [where e = sampleEnv and language = "''en''"
      and isRefresh = True and w = wf and outcome = "Rejected offline" and err = offline
      and wb = wf
      and wa = "wf\<lparr>articles := JArr [articleB], loading := False, error := None, ticks := 1\<rparr>"] b
  have "store (wf\<lparr>articles := JArr [articleB], loading := False, error := None, ticks := 1\<rparr>) = store wf"
    by blast
  then have x: "store (projr (fetchNews sampleEnv ''en'' True (Rejected offline) wf)) = store wf"
    by (simp add: fetchNews_def b)
  from cache_written_only_on_success [where e = sampleEnv and language = "''en''"
      and isRefresh = True and w = ws and outcome = "Rejected offline" and err = offline
      and wa = ws and wb = ws]
    fetched_rejected [of sampleEnv offline]
  have y: "store (projr (completeFetch sampleEnv ''en'' True (Rejected offline) ws)) = store ws"
    by auto
  have s: "jsonStringify sampleEnv (cachePayload 5000020 [articleA1]) = refreshedText"
    by (simp add: sampleEnv_def sampleStringify_def cachePayload_def articleA1_def articleB_def)
  have c: "clock sampleEnv 0 = 5000000" "clock sampleEnv (Suc (Suc 0)) = 5000020"
    by (simp_all add: sampleEnv_def)
  have z: "fetchNews sampleEnv ''en'' True (Resolved (Some responseText)) (mounted Map.empty) =
      Inr ((mounted [cacheKey ''en'' \<mapsto> refreshedText])
        \<lparr>articles := JArr [articleA1], loading := False,
         queries := [(''en'', 5000000)], ticks := 3\<rparr>)"
    by (simp add: fetchNews_def beginFetch_def issueQuery_def completeFetch_def sample_fetched
        onSuccess_def finallyBlock_def mounted_def sample_new_article c s numeral_3_eq_3)
  show ?thesis using x y z by (simp add: wf_def ws_def mounted_def)
qed

subsection \<open>The ids of a batch\<close>







subsection \<open>A clock that steps back\<close>


section \<open>Properties on a platform that can throw\<close>

subsection \<open>The platform on which no call throws\<close>

lemma issueQueryOn_reliable:
  "issueQueryOn reliable e language r w = Waiting (issueQuery e language w)"
  by (simp add: issueQueryOn_def reliable_def)

lemma beginFetchOn_reliable:
  "beginFetchOn reliable e language isRefresh w =
     (case beginFetch e language isRefresh w of
        Returned w' \<Rightarrow> Served w' | Awaiting w' \<Rightarrow> Waiting w')"
  by (simp add: beginFetchOn_def beginFetch_def issueQueryOn_reliable Let_def
        split: option.splits prod.splits sum.splits)
     (simp add: reliable_def)

lemma completeFetchOn_reliable:
  "completeFetchOn reliable e language isRefresh outcome w = Done w' \<longleftrightarrow>
   completeFetch e language isRefresh outcome w = Inr w'"
  by (auto simp: completeFetchOn_def completeFetch_def onSuccessOn_def onSuccess_def
        onFailureOn_def reliable_def Let_def split: sum.splits)

lemma fetchNewsOn_reliable:
  "fetchNewsOn reliable e language isRefresh outcome w = Done w' \<longleftrightarrow>
   fetchNews e language isRefresh outcome w = Inr w'"
  by (cases "beginFetch e language isRefresh w")
     (simp_all add: fetchNewsOn_def fetchNews_def beginFetchOn_reliable completeFetchOn_reliable)

subsection \<open>Refresh over an entry that is not served\<close>

lemma store_issueQueryOn:
  "store (stageState (issueQueryOn p e language isRefresh w)) = store w"
  by (simp add: issueQueryOn_def issueQuery_def onFailureOn_def onFailure_def finallyBlock_def
        split: option.splits)

lemma issueQueryOn_client:
  "newClientThrows p = None \<Longrightarrow>
   issueQueryOn p e language isRefresh w =
     Waiting (w\<lparr>error := None, queries := queries w @ [(language, clock e (ticks w))],
                ticks := Suc (ticks w)\<rparr>)"
  by (simp add: issueQueryOn_def issueQuery_def)

lemma beginFetchOn_refresh_cached:
  assumes "getItemThrows p (cacheKey language) = None"
    and "store w (cacheKey language) = Some cachedData" and "cachedData \<noteq> []"
  shows "beginFetchOn p e language True w =
     (case freshCache e (ticks w) cachedData of
        (Inr (Some a), t) \<Rightarrow>
          Served (w\<lparr>articles := a, loading := False, error := None, ticks := t\<rparr>)
      | (Inr None, t) \<Rightarrow> issueQueryOn p e language True (w\<lparr>loading := True, ticks := t\<rparr>)
      | (Inl x, t) \<Rightarrow>
          (case removeItemThrows p (cacheKey language) of
             Some y \<Rightarrow> Ended (Threw y (w\<lparr>loading := True, ticks := t\<rparr>))
           | None \<Rightarrow>
               issueQueryOn p e language True
                 (w\<lparr>loading := True, ticks := t,
                    store := (store w)(cacheKey language := None)\<rparr>)))"
  using assms
  by (simp add: beginFetchOn_def split: prod.splits sum.splits option.splits)

lemma nonEmpty_throws:
  "(\<exists>x. nonEmpty e c = Inl x) \<longleftrightarrow>
     c = None \<or> c = Some JNull
     \<or> (\<exists>a l x. c = Some a \<and> lengthOf a = Inr l \<and> toNum e l = Inl x)"
proof (cases c)
  case None
  then show ?thesis by (simp add: nonEmpty_def)
next
  case (Some a)
  then show ?thesis
    by (cases a) (auto simp: nonEmpty_def greaterZero_def split: sum.splits option.splits)
qed

lemma freshCache_result:
  "freshCache e t cachedData =
     (case jsonParse e cachedData of
        Inl x \<Rightarrow> (Inl x, t)
      | Inr v \<Rightarrow>
          if v = JNull
          then (Inl (typeError ''Cannot destructure property 'timestamp' of null''), t)
          else
            (case toNum e (getProp v ''timestamp'') of
               Inl x \<Rightarrow> (Inl x, Suc t)
             | Inr None \<Rightarrow> (Inr None, Suc t)
             | Inr (Some ts) \<Rightarrow>
                 if clock e t - ts < 15 * 60 * 1000
                 then (nonEmpty e (getProp v ''articles''), Suc t)
                 else (Inr None, Suc t)))"
  by (auto simp: freshCache_def Let_def CACHE_DURATION_def split: sum.splits option.splits)


lemma freshCache_throws_iff:
  "(\<exists>x. fst (freshCache e t cachedData) = Inl x) \<longleftrightarrow>
     (\<exists>x. jsonParse e cachedData = Inl x)
     \<or> jsonParse e cachedData = Inr JNull
     \<or> (\<exists>v. jsonParse e cachedData = Inr v \<and> v \<noteq> JNull
           \<and> ((\<exists>x. toNum e (getProp v ''timestamp'') = Inl x)
              \<or> (\<exists>t0. toNum e (getProp v ''timestamp'') = Inr (Some t0)
                    \<and> clock e t - t0 < 15 * 60 * 1000
                    \<and> (getProp v ''articles'' = None
                       \<or> getProp v ''articles'' = Some JNull
                       \<or> (\<exists>a l x. getProp v ''articles'' = Some a
                             \<and> lengthOf a = Inr l \<and> toNum e l = Inl x)))))"
  using nonEmpty_throws [of e]
  by (auto simp: freshCache_result split: sum.splits option.splits)

lemma beginFetchOn_store_changed:
  assumes "getItemThrows p (cacheKey language) = None"
    and "store w (cacheKey language) = Some cachedData" and "cachedData \<noteq> []"
    and "store (stageState (beginFetchOn p e language True w)) \<noteq> store w"
  shows "\<exists>x. fst (freshCache e (ticks w) cachedData) = Inl x"
  using assms(4)
  by (auto simp: beginFetchOn_refresh_cached [OF assms(1-3)] store_issueQueryOn
        split: prod.splits sum.splits option.splits)

text \<open>
  Claim C4, as the code has it. Take a refresh whose \<open>getItem\<close> returns the text of an
  entry. For a payload that is at least 15 minutes old, or whose list of articles is
  empty, the entry stays in the cache store, and the query is sent when the client is
  built. When reading the entry throws and \<open>removeItem\<close> returns, the entry is
  removed, and the query is sent when the client is built; reading throws when
  \<open>JSON.parse\<close> throws on the text, when the payload is \<open>null\<close>, when the
  conversion of the timestamp throws, and when the payload is less than 15 minutes old
  and its articles are \<open>undefined\<close> or \<open>null\<close> or the conversion of their length
  throws. In no other case is the store changed before the query.
\<close>

theorem stale_cache_kept_unreadable_cache_removed:
  assumes "getItemThrows p (cacheKey language) = None"
    and "store w (cacheKey language) = Some cachedData" and "cachedData \<noteq> []"
  shows "(jsonParse e cachedData = Inr (JObj kvs)
          \<and> map_of kvs ''timestamp'' = Some (JNum ts)
          \<and> map_of kvs ''articles'' = Some (JArr as)
          \<and> (15 * 60 * 1000 \<le> clock e (ticks w) - ts \<or> as = [])
          \<longrightarrow> store (stageState (beginFetchOn p e language True w)) = store w
              \<and> (newClientThrows p = None \<longrightarrow>
                   beginFetchOn p e language True w =
                     Waiting (w\<lparr>loading := True, error := None,
                                queries := queries w @ [(language, clock e (Suc (ticks w)))],
                                ticks := Suc (Suc (ticks w))\<rparr>)))
       \<and> (removeItemThrows p (cacheKey language) = None
          \<and> ((\<exists>x. jsonParse e cachedData = Inl x) \<or> jsonParse e cachedData = Inr JNull)
          \<longrightarrow> store (stageState (beginFetchOn p e language True w)) =
                (store w)(cacheKey language := None)
              \<and> (newClientThrows p = None \<longrightarrow>
                   beginFetchOn p e language True w =
                     Waiting (w\<lparr>store := (store w)(cacheKey language := None),
                                loading := True, error := None,
                                queries := queries w @ [(language, clock e (ticks w))],
                                ticks := Suc (ticks w)\<rparr>)))
       \<and> (removeItemThrows p (cacheKey language) = None
          \<and> jsonParse e cachedData = Inr v \<and> v \<noteq> JNull
          \<and> ((\<exists>x. toNum e (getProp v ''timestamp'') = Inl x)
             \<or> (\<exists>t0. toNum e (getProp v ''timestamp'') = Inr (Some t0)
                   \<and> clock e (ticks w) - t0 < 15 * 60 * 1000
                   \<and> (getProp v ''articles'' = None
                      \<or> getProp v ''articles'' = Some JNull
                      \<or> (\<exists>a l x. getProp v ''articles'' = Some a
                            \<and> lengthOf a = Inr l \<and> toNum e l = Inl x))))
          \<longrightarrow> store (stageState (beginFetchOn p e language True w)) =
                (store w)(cacheKey language := None)
              \<and> (newClientThrows p = None \<longrightarrow>
                   beginFetchOn p e language True w =
                     Waiting (w\<lparr>store := (store w)(cacheKey language := None),
                                loading := True, error := None,
                                queries := queries w @ [(language, clock e (Suc (ticks w)))],
                                ticks := Suc (Suc (ticks w))\<rparr>)))
       \<and> (store (stageState (beginFetchOn p e language True w)) \<noteq> store w
          \<longrightarrow> (\<exists>x. jsonParse e cachedData = Inl x)
              \<or> jsonParse e cachedData = Inr JNull
              \<or> (\<exists>u. jsonParse e cachedData = Inr u \<and> u \<noteq> JNull
                    \<and> ((\<exists>x. toNum e (getProp u ''timestamp'') = Inl x)
                       \<or> (\<exists>t0. toNum e (getProp u ''timestamp'') = Inr (Some t0)
                             \<and> clock e (ticks w) - t0 < 15 * 60 * 1000
                             \<and> (getProp u ''articles'' = None
                                \<or> getProp u ''articles'' = Some JNull
                                \<or> (\<exists>a l x. getProp u ''articles'' = Some a
                                      \<and> lengthOf a = Inr l \<and> toNum e l = Inl x))))))"
proof (intro conjI impI)
  note b = beginFetchOn_refresh_cached [OF assms, of e]
  {
    assume h: "jsonParse e cachedData = Inr (JObj kvs)
          \<and> map_of kvs ''timestamp'' = Some (JNum ts)
          \<and> map_of kvs ''articles'' = Some (JArr as)
          \<and> (15 * 60 * 1000 \<le> clock e (ticks w) - ts \<or> as = [])"
    then have f: "freshCache e (ticks w) cachedData = (Inr None, Suc (ticks w))"
      by (auto simp: freshCache_fresh CACHE_DURATION_def)
    show "store (stageState (beginFetchOn p e language True w)) = store w"
      by (simp add: b f store_issueQueryOn)
    assume "newClientThrows p = None"
    then show "beginFetchOn p e language True w =
                     Waiting (w\<lparr>loading := True, error := None,
                                queries := queries w @ [(language, clock e (Suc (ticks w)))],
                                ticks := Suc (Suc (ticks w))\<rparr>)"
      by (simp add: b f issueQueryOn_client)
  }
  {
    assume h: "removeItemThrows p (cacheKey language) = None
          \<and> ((\<exists>x. jsonParse e cachedData = Inl x) \<or> jsonParse e cachedData = Inr JNull)"
    then obtain x where f: "freshCache e (ticks w) cachedData = (Inl x, ticks w)"
      by (auto simp: freshCache_result)
    show "store (stageState (beginFetchOn p e language True w)) =
                (store w)(cacheKey language := None)"
      using h by (simp add: b f store_issueQueryOn)
    assume "newClientThrows p = None"
    then show "beginFetchOn p e language True w =
                     Waiting (w\<lparr>store := (store w)(cacheKey language := None),
                                loading := True, error := None,
                                queries := queries w @ [(language, clock e (ticks w))],
                                ticks := Suc (ticks w)\<rparr>)"
      using h by (simp add: b f issueQueryOn_client)
  }
  {
    assume h: "removeItemThrows p (cacheKey language) = None
          \<and> jsonParse e cachedData = Inr v \<and> v \<noteq> JNull
          \<and> ((\<exists>x. toNum e (getProp v ''timestamp'') = Inl x)
             \<or> (\<exists>t0. toNum e (getProp v ''timestamp'') = Inr (Some t0)
                   \<and> clock e (ticks w) - t0 < 15 * 60 * 1000
                   \<and> (getProp v ''articles'' = None
                      \<or> getProp v ''articles'' = Some JNull
                      \<or> (\<exists>a l x. getProp v ''articles'' = Some a
                            \<and> lengthOf a = Inr l \<and> toNum e l = Inl x))))"
    then have "\<exists>x. fst (freshCache e (ticks w) cachedData) = Inl x"
      unfolding freshCache_throws_iff by blast
    moreover have "snd (freshCache e (ticks w) cachedData) = Suc (ticks w)"
      using h by (auto simp: freshCache_result split: sum.splits option.splits)
    ultimately obtain x where f: "freshCache e (ticks w) cachedData = (Inl x, Suc (ticks w))"
      by (cases "freshCache e (ticks w) cachedData") auto
    show "store (stageState (beginFetchOn p e language True w)) =
                (store w)(cacheKey language := None)"
      using h by (simp add: b f store_issueQueryOn)
    assume "newClientThrows p = None"
    then show "beginFetchOn p e language True w =
                     Waiting (w\<lparr>store := (store w)(cacheKey language := None),
                                loading := True, error := None,
                                queries := queries w @ [(language, clock e (Suc (ticks w)))],
                                ticks := Suc (Suc (ticks w))\<rparr>)"
      using h by (simp add: b f issueQueryOn_client)
  }
  {
    assume "store (stageState (beginFetchOn p e language True w)) \<noteq> store w"
    from beginFetchOn_store_changed [OF assms this]
    show "(\<exists>x. jsonParse e cachedData = Inl x)
              \<or> jsonParse e cachedData = Inr JNull
              \<or> (\<exists>u. jsonParse e cachedData = Inr u \<and> u \<noteq> JNull
                    \<and> ((\<exists>x. toNum e (getProp u ''timestamp'') = Inl x)
                       \<or> (\<exists>t0. toNum e (getProp u ''timestamp'') = Inr (Some t0)
                             \<and> clock e (ticks w) - t0 < 15 * 60 * 1000
                             \<and> (getProp u ''articles'' = None
                                \<or> getProp u ''articles'' = Some JNull
                                \<or> (\<exists>a l x. getProp u ''articles'' = Some a
                                      \<and> lengthOf a = Inr l \<and> toNum e l = Inl x)))))"
      unfolding freshCache_throws_iff .
  }
qed

text \<open>
  The theorem on a payload that is more than an hour old, which stays in the store with
  and without a client, and on a text that is not JSON and on the payload \<open>null\<close>,
  which are removed.
\<close>

theorem stale_cache_kept_unreadable_cache_removed_witness:
  "beginFetchOn reliable sampleEnv ''en'' True (mounted [cacheKey ''en'' \<mapsto> staleText]) =
     Waiting ((mounted [cacheKey ''en'' \<mapsto> staleText])
       \<lparr>queries := [(''en'', 5000010)], ticks := 2\<rparr>)
   \<and> store (stageState (beginFetchOn keyless sampleEnv ''en'' True
        (mounted [cacheKey ''en'' \<mapsto> staleText]))) = [cacheKey ''en'' \<mapsto> staleText]
   \<and> beginFetchOn reliable sampleEnv ''en'' True (mounted [cacheKey ''en'' \<mapsto> ''{oops'']) =
     Waiting ((mounted Map.empty)\<lparr>queries := [(''en'', 5000000)], ticks := 1\<rparr>)
   \<and> beginFetchOn reliable looseEnv ''en'' True (mounted [cacheKey ''en'' \<mapsto> ''null'']) =
     Waiting ((mounted Map.empty)\<lparr>queries := [(''en'', 5000000)], ticks := 1\<rparr>)"
proof -
  define ws where "ws = mounted [cacheKey ''en'' \<mapsto> staleText]"
  define wc where "wc = mounted [cacheKey ''en'' \<mapsto> ''{oops'']"
  define wn where "wn = mounted [cacheKey ''en'' \<mapsto> ''null'']"
  have g: "getItemThrows reliable (cacheKey ''en'') = None"
    "getItemThrows keyless (cacheKey ''en'') = None"
    "removeItemThrows reliable (cacheKey ''en'') = None"
    "newClientThrows reliable = None"
    by (simp_all add: reliable_def keyless_def)
  have ne: "staleText \<noteq> []" by (simp add: staleText_def)
  have s: "store ws (cacheKey ''en'') = Some staleText" "ticks ws = 0" "queries ws = []"
    "store wc (cacheKey ''en'') = Some ''{oops''" "ticks wc = 0" "queries wc = []"
    "store wn (cacheKey ''en'') = Some ''null''" "ticks wn = 0" "queries wn = []"
    by (simp_all add: ws_def wc_def wn_def mounted_def)
  have c: "15 * 60 * 1000 \<le> clock sampleEnv (ticks ws) - 1000"
    "clock sampleEnv 0 = 5000000" "clock sampleEnv (Suc 0) = 5000010"
    "clock looseEnv 0 = 5000000"
    by (simp_all add: sampleEnv_def looseEnv_def s)
  have n: "jsonParse looseEnv ''null'' = Inr JNull"
    by (simp add: looseEnv_def stringText_def objectText_def)
  note t1 = stale_cache_kept_unreadable_cache_removed [OF g(1) s(1) ne, where e = sampleEnv
      and kvs = "[(''timestamp'', JNum 1000), (''articles'', JArr [articleB])]"
      and ts = 1000 and as = "[articleB]" and v = JNull]
  note t2 = stale_cache_kept_unreadable_cache_removed [OF g(2) s(1) ne, where e = sampleEnv
      and kvs = "[(''timestamp'', JNum 1000), (''articles'', JArr [articleB])]"
      and ts = 1000 and as = "[articleB]" and v = JNull]
  note t3 = stale_cache_kept_unreadable_cache_removed [OF g(1) s(4), where e = sampleEnv
      and kvs = "[]" and ts = 0 and as = "[]" and v = JNull]
  note t4 = stale_cache_kept_unreadable_cache_removed [OF g(1) s(7), where e = looseEnv
      and kvs = "[]" and ts = 0 and as = "[]" and v = JNull]
  have a: "beginFetchOn reliable sampleEnv ''en'' True ws =
     Waiting (ws\<lparr>queries := [(''en'', 5000010)], ticks := 2\<rparr>)"
    using t1 sampleParse_stale c(1) g(4)
    by (simp add: s c numeral_2_eq_2) (simp add: ws_def mounted_def)
  have b: "store (stageState (beginFetchOn keyless sampleEnv ''en'' True ws)) = store ws"
    using t2 sampleParse_stale c(1) by simp
  have d: "beginFetchOn reliable sampleEnv ''en'' True wc =
     Waiting ((mounted Map.empty)\<lparr>queries := [(''en'', 5000000)], ticks := 1\<rparr>)"
    using t3 sampleParse_corrupt g(3,4)
    by (simp add: s c) (simp add: wc_def mounted_def)
  have f: "beginFetchOn reliable looseEnv ''en'' True wn =
     Waiting ((mounted Map.empty)\<lparr>queries := [(''en'', 5000000)], ticks := 1\<rparr>)"
    using t4 n g(3,4)
    by (simp add: s c) (simp add: wn_def mounted_def)
  show ?thesis using a b d f by (simp add: ws_def wc_def wn_def mounted_def)
qed

text \<open>
  Against C4 as stated: the refresh over the old payload sends its query with the entry
  still in the store, and when that query is rejected the old articles are shown.
\<close>

theorem stale_entry_not_removed_counterexample:
  "beginFetch sampleEnv ''en'' True (mounted [cacheKey ''en'' \<mapsto> staleText]) =
     Awaiting ((mounted [cacheKey ''en'' \<mapsto> staleText])
       \<lparr>queries := [(''en'', 5000010)], ticks := 2\<rparr>)
   \<and> store ((mounted [cacheKey ''en'' \<mapsto> staleText])
       \<lparr>queries := [(''en'', 5000010)], ticks := 2\<rparr>) (cacheKey ''en'') = Some staleText
   \<and> articles (projr (fetchNews sampleEnv ''en'' True (Rejected offline)
        (mounted [cacheKey ''en'' \<mapsto> staleText]))) = JArr [articleB]"
proof -
  have ne: "staleText \<noteq> []" by (simp add: staleText_def)
  have f: "freshCache sampleEnv 0 staleText = (Inr None, Suc 0)"
    by (simp add: freshCache_fresh [OF sampleParse_stale] CACHE_DURATION_def, simp add: sampleEnv_def)
  have b: "beginFetch sampleEnv ''en'' True (mounted [cacheKey ''en'' \<mapsto> staleText]) =
     Awaiting ((mounted [cacheKey ''en'' \<mapsto> staleText])
       \<lparr>queries := [(''en'', 5000010)], ticks := 2\<rparr>)"
    using ne f by (simp add: beginFetch_def issueQuery_def mounted_def, simp add: sampleEnv_def)
  have s: "staleCache sampleEnv (Some staleText) = Some (JArr [articleB])"
    using ne by (simp add: staleCache_def staleBody_def sampleParse_stale nonEmpty_def greaterZero_def)
  have c: "articles (projr (fetchNews sampleEnv ''en'' True (Rejected offline)
        (mounted [cacheKey ''en'' \<mapsto> staleText]))) = JArr [articleB]"
    unfolding fetchNews_def b
    by (simp add: completeFetch_def fetched_def finallyBlock_def onFailure_def mounted_def s)
  show ?thesis using b c by (simp add: mounted_def)
qed

subsection \<open>A failed refresh\<close>

lemma staleCache_Some_iff:
  "staleCache e c = Some a \<longleftrightarrow>
     (\<exists>cachedData v l n. c = Some cachedData \<and> cachedData \<noteq> []
        \<and> jsonParse e cachedData = Inr v \<and> getProp v ''articles'' = Some a
        \<and> lengthOf a = Inr l \<and> toNum e l = Inr (Some n) \<and> 0 < n)"
proof (cases c)
  case None
  then show ?thesis by (simp add: staleCache_def)
next
  case (Some s)
  show ?thesis
  proof (cases "jsonParse e s")
    case (Inl x)
    with Some show ?thesis by (simp add: staleCache_def staleBody_def)
  next
    case (Inr v)
    show ?thesis
    proof (cases "getProp v ''articles''")
      case None
      with Some Inr show ?thesis
        by (auto simp: staleCache_def staleBody_def nonEmpty_def)
    next
      case (Some b)
      then have "v \<noteq> JNull" by auto
      with \<open>c = Some s\<close> Inr Some show ?thesis
        by (auto simp: staleCache_def staleBody_def nonEmpty_def greaterZero_def
            split: sum.splits option.splits if_splits)
    qed
  qed
qed

lemma completeFetchOn_failure:
  "fetched e outcome = Inl err \<Longrightarrow>
   completeFetchOn p e language isRefresh outcome w = onFailureOn p e language isRefresh err w"
  by (simp add: completeFetchOn_def)

lemma onFailureOn_refresh:
  "getItemThrows p (cacheKey language) = None \<Longrightarrow>
   onFailureOn p e language True err w =
     Done (case staleCache e (store w (cacheKey language)) of
             Some cachedArticles \<Rightarrow>
               w\<lparr>articles := cachedArticles, error := Some (userMessage err), loading := False\<rparr>
           | None \<Rightarrow>
               w\<lparr>articles := JArr hardcoded, error := Some (userMessage err), loading := False\<rparr>)"
  by (simp add: onFailureOn_def onFailure_def finallyBlock_def split: option.splits)

lemma userMessage_literal:
  "userMessage err =
     (if includesStr (toString err) ''429'' \<or> includesStr (toString err) ''RESOURCE_EXHAUSTED''
      then ''News service is temporarily unavailable due to high demand. Showing older articles if available.''
      else ''Failed to fetch news. Please try again later.'')"
  by (simp add: userMessage_def isRateLimitError_def highDemandMessage_def failedMessage_def)

lemma hardcoded_fields:
  "map (\<lambda>a. (getProp a ''id'', getProp a ''category'', getProp a ''title'', getProp a ''sourceUrl''))
     [sampleBusiness, sampleCommunity] =
   [(Some (JNum 1), Some (JStr ''Business''),
     Some (JStr ''HKMA maintains base rate at 5.75 percent''), Some (JStr ''#'')),
    (Some (JNum 2), Some (JStr ''Community''),
     Some (JStr ''HK Community Ball raises funds for charity''), Some (JStr ''#''))]"
  by (simp add: sampleBusiness_def sampleCommunity_def)

text \<open>
  Claim C2, as the code has it. Take a refresh whose fetch fails with the error
  \<open>err\<close> and whose \<open>getItem\<close> of line 110 returns. If the cache store holds a text
  that decodes to a payload whose articles have a length greater than 0, whatever its
  timestamp, those articles are adopted: a non-empty list is such a value, and so is a
  non-empty string or an object with a positive length. In every other case the
  articles become the two hardcoded ones. In both cases the error is the user message,
  which has the high-demand wording exactly when the string form of \<open>err\<close> contains
  \<open>429\<close> or \<open>RESOURCE_EXHAUSTED\<close>.
\<close>

theorem failed_refresh_adopts_cache_or_sample:
  assumes "fetched e outcome = Inl err"
    and "getItemThrows p (cacheKey language) = None"
  shows "(store w (cacheKey language) = Some cachedData \<and> cachedData \<noteq> []
          \<and> jsonParse e cachedData = Inr v \<and> getProp v ''articles'' = Some a
          \<and> lengthOf a = Inr l \<and> toNum e l = Inr (Some n) \<and> 0 < n
          \<longrightarrow> completeFetchOn p e language True outcome w =
                Done (w\<lparr>articles := a, error := Some (userMessage err), loading := False\<rparr>))
       \<and> (store w (cacheKey language) = Some cachedData \<and> cachedData \<noteq> []
          \<and> jsonParse e cachedData = Inr (JObj kvs)
          \<and> map_of kvs ''articles'' = Some (JArr as) \<and> as \<noteq> []
          \<longrightarrow> completeFetchOn p e language True outcome w =
                Done (w\<lparr>articles := JArr as, error := Some (userMessage err),
                        loading := False\<rparr>))
       \<and> (\<not> (\<exists>c u b m k. store w (cacheKey language) = Some c \<and> c \<noteq> []
                \<and> jsonParse e c = Inr u \<and> getProp u ''articles'' = Some b
                \<and> lengthOf b = Inr m \<and> toNum e m = Inr (Some k) \<and> 0 < k)
          \<longrightarrow> completeFetchOn p e language True outcome w =
                Done (w\<lparr>articles := JArr [sampleBusiness, sampleCommunity],
                        error := Some (userMessage err), loading := False\<rparr>))
       \<and> userMessage err =
           (if includesStr (toString err) ''429''
               \<or> includesStr (toString err) ''RESOURCE_EXHAUSTED''
            then ''News service is temporarily unavailable due to high demand. Showing older articles if available.''
            else ''Failed to fetch news. Please try again later.'')
       \<and> map (\<lambda>a. (getProp a ''id'', getProp a ''category'', getProp a ''title'',
                     getProp a ''sourceUrl''))
           [sampleBusiness, sampleCommunity] =
         [(Some (JNum 1), Some (JStr ''Business''),
           Some (JStr ''HKMA maintains base rate at 5.75 percent''), Some (JStr ''#'')),
          (Some (JNum 2), Some (JStr ''Community''),
           Some (JStr ''HK Community Ball raises funds for charity''), Some (JStr ''#''))]"
proof (intro conjI impI)
  note c = completeFetchOn_failure [OF assms(1)] onFailureOn_refresh [OF assms(2)]
  {
    assume "store w (cacheKey language) = Some cachedData \<and> cachedData \<noteq> []
          \<and> jsonParse e cachedData = Inr v \<and> getProp v ''articles'' = Some a
          \<and> lengthOf a = Inr l \<and> toNum e l = Inr (Some n) \<and> 0 < n"
    then have "staleCache e (store w (cacheKey language)) = Some a"
      unfolding staleCache_Some_iff by blast
    then show "completeFetchOn p e language True outcome w =
                Done (w\<lparr>articles := a, error := Some (userMessage err), loading := False\<rparr>)"
      by (simp add: c)
  }
  {
    assume h: "store w (cacheKey language) = Some cachedData \<and> cachedData \<noteq> []
          \<and> jsonParse e cachedData = Inr (JObj kvs)
          \<and> map_of kvs ''articles'' = Some (JArr as) \<and> as \<noteq> []"
    then have "staleCache e (store w (cacheKey language)) = Some (JArr as)"
      by (simp add: staleCache_articles)
    then show "completeFetchOn p e language True outcome w =
                Done (w\<lparr>articles := JArr as, error := Some (userMessage err),
                        loading := False\<rparr>)"
      by (simp add: c)
  }
  {
    assume "\<not> (\<exists>c u b m k. store w (cacheKey language) = Some c \<and> c \<noteq> []
                \<and> jsonParse e c = Inr u \<and> getProp u ''articles'' = Some b
                \<and> lengthOf b = Inr m \<and> toNum e m = Inr (Some k) \<and> 0 < k)"
    then have "\<And>b. staleCache e (store w (cacheKey language)) \<noteq> Some b"
      unfolding staleCache_Some_iff by blast
    then have "staleCache e (store w (cacheKey language)) = None"
      by (cases "staleCache e (store w (cacheKey language))") auto
    then show "completeFetchOn p e language True outcome w =
                Done (w\<lparr>articles := JArr [sampleBusiness, sampleCommunity],
                        error := Some (userMessage err), loading := False\<rparr>)"
      by (simp add: c hardcoded_def)
  }
  show "userMessage err =
           (if includesStr (toString err) ''429''
               \<or> includesStr (toString err) ''RESOURCE_EXHAUSTED''
            then ''News service is temporarily unavailable due to high demand. Showing older articles if available.''
            else ''Failed to fetch news. Please try again later.'')"
    by (rule userMessage_literal)
  show "map (\<lambda>a. (getProp a ''id'', getProp a ''category'', getProp a ''title'',
                     getProp a ''sourceUrl''))
           [sampleBusiness, sampleCommunity] =
         [(Some (JNum 1), Some (JStr ''Business''),
           Some (JStr ''HKMA maintains base rate at 5.75 percent''), Some (JStr ''#'')),
          (Some (JNum 2), Some (JStr ''Community''),
           Some (JStr ''HK Community Ball raises funds for charity''), Some (JStr ''#''))]"
    by (rule hardcoded_fields)
qed

text \<open>
  The theorem on a rate-limited query over an old payload, and on a rate-limited and
  an offline query over an empty store.
\<close>

theorem failed_refresh_adopts_cache_or_sample_witness:
  "completeFetchOn reliable sampleEnv ''en'' True (Rejected rateLimited)
       ((mounted [cacheKey ''en'' \<mapsto> staleText])\<lparr>queries := [(''en'', 5000010)], ticks := 2\<rparr>) =
     Done ((mounted [cacheKey ''en'' \<mapsto> staleText])
       \<lparr>articles := JArr [articleB], loading := False, error := Some highDemandMessage,
        queries := [(''en'', 5000010)], ticks := 2\<rparr>)
   \<and> completeFetchOn reliable sampleEnv ''en'' True (Rejected rateLimited)
       ((mounted Map.empty)\<lparr>queries := [(''en'', 5000000)], ticks := 1\<rparr>) =
     Done ((mounted Map.empty)
       \<lparr>articles := JArr [sampleBusiness, sampleCommunity], loading := False,
        error := Some highDemandMessage, queries := [(''en'', 5000000)], ticks := 1\<rparr>)
   \<and> completeFetchOn reliable sampleEnv ''en'' True (Rejected offline)
       ((mounted Map.empty)\<lparr>queries := [(''en'', 5000000)], ticks := 1\<rparr>) =
     Done ((mounted Map.empty)
       \<lparr>articles := JArr [sampleBusiness, sampleCommunity], loading := False,
        error := Some failedMessage, queries := [(''en'', 5000000)], ticks := 1\<rparr>)"
proof -
  define ws where
    "ws = (mounted [cacheKey ''en'' \<mapsto> staleText])\<lparr>queries := [(''en'', 5000010)], ticks := 2\<rparr>"
  define w0 where "w0 = (mounted Map.empty)\<lparr>queries := [(''en'', 5000000)], ticks := 1\<rparr>"
  have g: "getItemThrows reliable (cacheKey ''en'') = None" by (simp add: reliable_def)
  have ne: "staleText \<noteq> []" by (simp add: staleText_def)
  have s: "store ws (cacheKey ''en'') = Some staleText" "store w0 (cacheKey ''en'') = None"
    by (simp_all add: ws_def w0_def mounted_def)
  have u: "userMessage rateLimited = highDemandMessage" "userMessage offline = failedMessage"
    using rateLimited_is offline_is_not by (simp_all add: userMessage_def)
  have a: "completeFetchOn reliable sampleEnv ''en'' True (Rejected rateLimited) ws =
     Done (ws\<lparr>articles := JArr [articleB], error := Some highDemandMessage, loading := False\<rparr>)"
    using failed_refresh_adopts_cache_or_sample [OF fetched_rejected g, where e = sampleEnv
        and err = rateLimited and w = ws and cachedData = staleText
        and kvs = "[(''timestamp'', JNum 1000), (''articles'', JArr [articleB])]"
        and as = "[articleB]"]
      s(1) ne sampleParse_stale u
    by simp
  have b: "completeFetchOn reliable sampleEnv ''en'' True (Rejected x) w0 =
     Done (w0\<lparr>articles := JArr [sampleBusiness, sampleCommunity],
             error := Some (userMessage x), loading := False\<rparr>)" for x
    using failed_refresh_adopts_cache_or_sample [OF fetched_rejected g, where e = sampleEnv
        and err = x and w = w0] s(2)
    by simp
  show ?thesis using a b [of rateLimited] b [of offline]
    by (simp add: u ws_def w0_def mounted_def)
qed

lemma looseParse_string:
  "jsonParse looseEnv stringText =
     Inr (JObj [(''timestamp'', JNum 1000), (''articles'', JStr ''ab'')])"
  by (simp add: looseEnv_def)

text \<open>
  Against C2 as stated: the store holds a payload whose articles are the string
  \<open>ab\<close>, not a list, and the failed refresh shows that string, not the hardcoded
  articles.
\<close>

theorem string_articles_adopted_counterexample:
  "store ((mounted [cacheKey ''en'' \<mapsto> stringText])\<lparr>queries := [(''en'', 5000010)], ticks := 2\<rparr>)
       (cacheKey ''en'') = Some stringText
   \<and> jsonParse looseEnv stringText =
       Inr (JObj [(''timestamp'', JNum 1000), (''articles'', JStr ''ab'')])
   \<and> completeFetchOn reliable looseEnv ''en'' True (Rejected offline)
       ((mounted [cacheKey ''en'' \<mapsto> stringText])\<lparr>queries := [(''en'', 5000010)], ticks := 2\<rparr>) =
     Done ((mounted [cacheKey ''en'' \<mapsto> stringText])
       \<lparr>articles := JStr ''ab'', loading := False, error := Some failedMessage,
        queries := [(''en'', 5000010)], ticks := 2\<rparr>)"
proof -
  have ne: "stringText \<noteq> []" by (simp add: stringText_def)
  have s: "staleCache looseEnv (Some stringText) = Some (JStr ''ab'')"
    using ne by (simp add: staleCache_def staleBody_def looseParse_string nonEmpty_def greaterZero_def)
  have u: "userMessage offline = failedMessage"
    using offline_is_not by (simp add: userMessage_def)
  have g: "getItemThrows reliable (cacheKey ''en'') = None" by (simp add: reliable_def)
  show ?thesis
    by (simp add: looseParse_string completeFetchOn_failure [OF fetched_rejected]
        onFailureOn_refresh [OF g] mounted_def s u)
qed

subsection \<open>Load more\<close>

lemma onFailureOn_loadMore:
  "onFailureOn p e language False err w =
     Done (w\<lparr>error := Some (moreMessage err), fetchingMore := False\<rparr>)"
  by (simp add: onFailureOn_def onFailure_def finallyBlock_def)

lemma beginFetchOn_loadMore:
  "beginFetchOn p e language False w =
     (case newClientThrows p of
        None \<Rightarrow>
          Waiting (w\<lparr>fetchingMore := True, error := None,
                     queries := queries w @ [(language, clock e (ticks w))],
                     ticks := Suc (ticks w)\<rparr>)
      | Some x \<Rightarrow> Ended (Done (w\<lparr>error := Some (moreMessage x), fetchingMore := False\<rparr>)))"
  by (simp add: beginFetchOn_def issueQueryOn_def issueQuery_def onFailureOn_loadMore
      split: option.splits)

lemma completeFetchOn_loadMore_success:
  assumes "fetched e outcome = Inr articlesData" and "articles w = JArr prevArticles"
    and "setItemThrows p (cacheKey language)
           (jsonStringify e (JObj [(''timestamp'', JNum (clock e (ticks w + length articlesData))),
              (''articles'', JArr (prevArticles @ newArticlesWithIds e (ticks w) 0 articlesData))]))
         = None"
  shows "completeFetchOn p e language False outcome w =
     Done (w\<lparr>articles := JArr (prevArticles @ newArticlesWithIds e (ticks w) 0 articlesData),
             store := (store w)(cacheKey language \<mapsto>
               jsonStringify e (JObj [(''timestamp'', JNum (clock e (ticks w + length articlesData))),
                 (''articles'', JArr (prevArticles @ newArticlesWithIds e (ticks w) 0 articlesData))])),
             fetchingMore := False,
             ticks := Suc (ticks w + length articlesData)\<rparr>)"
  using assms
  by (simp add: completeFetchOn_def onSuccessOn_def finallyBlock_def cachePayload_def Let_def)

text \<open>
  Claim C6, as the code has it. A load-more never returns from the cache, whatever the
  store holds: when the client is built it sends its query, and when building the
  client throws it sends none and ends with the load-more message. When the query is
  sent and the fetch succeeds with the decoded records \<open>articlesData\<close>, over a
  current list \<open>prevArticles\<close>, and \<open>setItem\<close> returns, the run ends with the
  new articles appended after the current ones, and with the entry of the language,
  under the key of the prefix followed by the language, rewritten to the object of the
  timestamp read at the write and of exactly that combined list.
\<close>

theorem loadMore_appends_rewrites_cache_and_asks_the_client:
  "beginFetchOn p e language False w =
     (case newClientThrows p of
        None \<Rightarrow>
          Waiting (w\<lparr>fetchingMore := True, error := None,
                     queries := queries w @ [(language, clock e (ticks w))],
                     ticks := Suc (ticks w)\<rparr>)
      | Some x \<Rightarrow> Ended (Done (w\<lparr>error := Some (moreMessage x), fetchingMore := False\<rparr>)))
   \<and> (newClientThrows p = None \<and> fetched e outcome = Inr articlesData
        \<and> articles w = JArr prevArticles
        \<and> setItemThrows p (cacheKey language)
            (jsonStringify e
               (JObj [(''timestamp'', JNum (clock e (Suc (ticks w) + length articlesData))),
                      (''articles'',
                       JArr (prevArticles @ newArticlesWithIds e (Suc (ticks w)) 0 articlesData))]))
          = None
      \<longrightarrow> fetchNewsOn p e language False outcome w =
            Done (w\<lparr>articles :=
                      JArr (prevArticles @ newArticlesWithIds e (Suc (ticks w)) 0 articlesData),
                    store := (store w)(cacheKey language \<mapsto>
                      jsonStringify e
                        (JObj [(''timestamp'',
                                JNum (clock e (Suc (ticks w) + length articlesData))),
                               (''articles'',
                                JArr (prevArticles
                                  @ newArticlesWithIds e (Suc (ticks w)) 0 articlesData))])),
                    fetchingMore := False, error := None,
                    queries := queries w @ [(language, clock e (ticks w))],
                    ticks := Suc (Suc (ticks w) + length articlesData)\<rparr>))
   \<and> cacheKey language = ''insight_quest_news_cache_'' @ language"
proof (intro conjI impI)
  show "beginFetchOn p e language False w =
     (case newClientThrows p of
        None \<Rightarrow>
          Waiting (w\<lparr>fetchingMore := True, error := None,
                     queries := queries w @ [(language, clock e (ticks w))],
                     ticks := Suc (ticks w)\<rparr>)
      | Some x \<Rightarrow> Ended (Done (w\<lparr>error := Some (moreMessage x), fetchingMore := False\<rparr>)))"
    by (rule beginFetchOn_loadMore)
next
  let ?w1 = "w\<lparr>fetchingMore := True, error := None,
                queries := queries w @ [(language, clock e (ticks w))],
                ticks := Suc (ticks w)\<rparr>"
  assume h: "newClientThrows p = None \<and> fetched e outcome = Inr articlesData
        \<and> articles w = JArr prevArticles
        \<and> setItemThrows p (cacheKey language)
            (jsonStringify e
               (JObj [(''timestamp'', JNum (clock e (Suc (ticks w) + length articlesData))),
                      (''articles'',
                       JArr (prevArticles @ newArticlesWithIds e (Suc (ticks w)) 0 articlesData))]))
          = None"
  then have b: "beginFetchOn p e language False w = Waiting ?w1"
    by (simp add: beginFetchOn_loadMore)
  have a: "articles ?w1 = JArr prevArticles" using h by simp
  have s: "setItemThrows p (cacheKey language)
           (jsonStringify e (JObj [(''timestamp'', JNum (clock e (ticks ?w1 + length articlesData))),
              (''articles'', JArr (prevArticles @ newArticlesWithIds e (ticks ?w1) 0 articlesData))]))
         = None"
    using h by simp
  from h have f: "fetched e outcome = Inr articlesData" by simp
  show "fetchNewsOn p e language False outcome w =
            Done (w\<lparr>articles :=
                      JArr (prevArticles @ newArticlesWithIds e (Suc (ticks w)) 0 articlesData),
                    store := (store w)(cacheKey language \<mapsto>
                      jsonStringify e
                        (JObj [(''timestamp'',
                                JNum (clock e (Suc (ticks w) + length articlesData))),
                               (''articles'',
                                JArr (prevArticles
                                  @ newArticlesWithIds e (Suc (ticks w)) 0 articlesData))])),
                    fetchingMore := False, error := None,
                    queries := queries w @ [(language, clock e (ticks w))],
                    ticks := Suc (Suc (ticks w) + length articlesData)\<rparr>)"
    unfolding fetchNewsOn_def b
    by (simp add: completeFetchOn_loadMore_success [OF f a s])
next
  show "cacheKey language = ''insight_quest_news_cache_'' @ language"
    by (simp add: cacheKey_def CACHE_KEY_PREFIX_def)
qed

text \<open>
  The theorem on a load-more over the article \<open>B\<close> whose query answers with the
  article \<open>A\<close>.
\<close>

theorem loadMore_appends_rewrites_cache_and_asks_the_client_witness:
  "fetchNewsOn reliable sampleEnv ''en'' False (Resolved (Some responseText))
       ((mounted [cacheKey ''en'' \<mapsto> freshText])\<lparr>articles := JArr [articleB], loading := False\<rparr>) =
     Done ((mounted [cacheKey ''en'' \<mapsto> moreText])
       \<lparr>articles := JArr [articleB, articleA1], loading := False,
        queries := [(''en'', 5000000)], ticks := 3\<rparr>)"
proof -
  define w0 where
    "w0 = (mounted [cacheKey ''en'' \<mapsto> freshText])\<lparr>articles := JArr [articleB], loading := False\<rparr>"
  have a: "articles w0 = JArr [articleB]" and t: "ticks w0 = 0"
    by (simp_all add: w0_def mounted_def)
  have s: "jsonStringify sampleEnv
      (JObj [(''timestamp'', JNum 5000020), (''articles'', JArr [articleB, articleA1])]) = moreText"
    by (simp add: sampleEnv_def sampleStringify_def cachePayload_def articleA1_def articleB_def)
  have c: "clock sampleEnv 0 = 5000000" "clock sampleEnv (Suc (Suc 0)) = 5000020"
    by (simp_all add: sampleEnv_def)
  have r: "newClientThrows reliable = None" "\<And>k v. setItemThrows reliable k v = None"
    by (simp_all add: reliable_def)
  from loadMore_appends_rewrites_cache_and_asks_the_client [where p = reliable and e = sampleEnv
      and language = "''en''" and w = w0 and outcome = "Resolved (Some responseText)"
      and articlesData = "[articleA]" and prevArticles = "[articleB]"]
    sample_fetched a r
  have "fetchNewsOn reliable sampleEnv ''en'' False (Resolved (Some responseText)) w0 =
          Done (w0\<lparr>articles := JArr [articleB, articleA1],
                  store := (store w0)(cacheKey ''en'' \<mapsto> moreText),
                  fetchingMore := False, error := None,
                  queries := queries w0 @ [(''en'', 5000000)],
                  ticks := 3\<rparr>)"
    by (simp add: t sample_new_article c s numeral_3_eq_3)
  then show ?thesis by (simp add: w0_def mounted_def)
qed

text \<open>
  Against C6 as stated: without an API key the load-more sends no query; it ends with
  the load-more message and the articles it had.
\<close>

theorem no_query_without_client_counterexample:
  "fetchNewsOn keyless sampleEnv ''en'' False (Resolved (Some responseText))
       ((mounted [cacheKey ''en'' \<mapsto> freshText])\<lparr>articles := JArr [articleB], loading := False\<rparr>) =
     Done ((mounted [cacheKey ''en'' \<mapsto> freshText])
       \<lparr>articles := JArr [articleB], loading := False,
        error := Some ''Could not load more articles.''\<rparr>)
   \<and> queries ((mounted [cacheKey ''en'' \<mapsto> freshText])
       \<lparr>articles := JArr [articleB], loading := False,
        error := Some ''Could not load more articles.''\<rparr>) = []"
proof -
  have m: "moreMessage apiKeyError = ''Could not load more articles.''"
    by (simp add: moreMessage_def isRateLimitError_def apiKeyError_def)
  show ?thesis
    by (simp add: fetchNewsOn_def beginFetchOn_loadMore keyless_def reliable_def m mounted_def)
qed




subsection \<open>No failure leaves the operation\<close>










end
